theory Spec2Isabelle
  imports Main
begin

section \<open>JavaScript values\<close>

text \<open>
  The program is TypeScript: the type \<open>PixiInfo\<close> is a compile-time annotation, and the
  value that \<open>JSON.parse\<close> returns is not checked against it at run time. The model
  therefore keeps the dynamic values of the language. A number keeps the text of its
  literal (its IEEE value is never inspected by the code modelled here), a string is a
  byte string, an object is the list of its members in source order (a later duplicate
  of a key shadows an earlier one).
\<close>

datatype js =
    JUndefined
  | JNull
  | JBool bool
  | JNum string
  | JStr string
  | JArr "js list"
  | JObj "(string \<times> js) list"

text \<open>
  What a rejected promise or a \<open>throw\<close> carries: the two error classes the runtime
  itself raises in the code below, and an opaque failure of a collaborator (a process that
  could not be spawned or exited with an error status, a configuration read that failed).
\<close>

datatype js_error = SyntaxError | TypeError | Failure string

subsection \<open>JSON.parse\<close>

text \<open>
  \<open>JSON.parse\<close> belongs to the JavaScript runtime. It is modelled by a lexer and a
  pushdown recogniser for the JSON grammar, both structurally recursive over their input,
  so that parsing is total: a text outside the grammar is the value \<open>Inl SyntaxError\<close>.
  White space is space, tab, line feed and carriage return; a string may not contain a raw
  control character. An escape of the form backslash, u and four hexadecimal digits
  denotes a UTF-16 code unit: a high surrogate followed at once by an escaped low surrogate
  is stored as the four UTF-8 bytes of the character the pair denotes, as the raw character
  is; any other code unit is stored as the UTF-8 bytes of its value (a surrogate without
  its partner, which has no UTF-8 form, as the three bytes of its value).
\<close>

datatype token =
    TLBrace | TRBrace | TLBracket | TRBracket | TColon | TComma
  | TStr string | TNum string | TTrue | TFalse | TNull

datatype numphase = NMinus | NZero | NInt | NDot | NFrac | NExp | NExpSign | NExpDig

datatype lexst =
    LIdle
  | LStr string "int option"
  | LEsc string "int option"
  | LUni string "int option" "int list"
  | LNum numphase string
  | LLit string token

definition is_ws :: "char \<Rightarrow> bool" where
  "is_ws c = (c = CHR '' '' \<or> c = CHR 0x09 \<or> c = CHR 0x0A \<or> c = CHR 0x0D)"

definition is_digit :: "char \<Rightarrow> bool" where
  "is_digit c = (c \<in> set ''0123456789'')"

definition is_digit19 :: "char \<Rightarrow> bool" where
  "is_digit19 c = (c \<in> set ''123456789'')"

definition is_exp :: "char \<Rightarrow> bool" where
  "is_exp c = (c = CHR ''e'' \<or> c = CHR ''E'')"

definition hex_val :: "char \<Rightarrow> int option" where
  "hex_val c =
     (if is_digit c then Some (of_char c - 48)
      else if c \<in> set ''abcdef'' then Some (of_char c - 87)
      else if c \<in> set ''ABCDEF'' then Some (of_char c - 55)
      else None)"

definition utf8_encode :: "int \<Rightarrow> string" where
  "utf8_encode n =
     (if n < 128 then [char_of n]
      else if n < 2048 then [char_of (192 + n div 64), char_of (128 + n mod 64)]
      else if n < 65536
      then [char_of (224 + n div 4096), char_of (128 + (n div 64) mod 64),
            char_of (128 + n mod 64)]
      else [char_of (240 + n div 262144), char_of (128 + (n div 4096) mod 64),
            char_of (128 + (n div 64) mod 64), char_of (128 + n mod 64)])"

text \<open>The string read so far, newest character first, with a high surrogate that still
  waits for its partner; \<open>flush\<close> gives up waiting.\<close>

definition is_high_surrogate :: "int \<Rightarrow> bool" where
  "is_high_surrogate n = (55296 \<le> n \<and> n < 56320)"

definition is_low_surrogate :: "int \<Rightarrow> bool" where
  "is_low_surrogate n = (56320 \<le> n \<and> n < 57344)"

definition flush :: "string \<Rightarrow> int option \<Rightarrow> string" where
  "flush acc pending = (case pending of None \<Rightarrow> acc | Some hi \<Rightarrow> rev (utf8_encode hi) @ acc)"

definition unicode_escape :: "string \<Rightarrow> int option \<Rightarrow> int \<Rightarrow> lexst" where
  "unicode_escape acc pending n =
     (case pending of
        Some hi \<Rightarrow>
          if is_low_surrogate n
          then LStr (rev (utf8_encode (65536 + (hi - 55296) * 1024 + (n - 56320))) @ acc) None
          else if is_high_surrogate n then LStr (flush acc pending) (Some n)
          else LStr (rev (utf8_encode n) @ flush acc pending) None
      | None \<Rightarrow>
          if is_high_surrogate n then LStr acc (Some n)
          else LStr (rev (utf8_encode n) @ acc) None)"

text \<open>Between tokens: white space is skipped, a punctuation mark is a token, and the
  first character of a string, a number or a literal name opens it.\<close>

definition lex_idle :: "token list \<Rightarrow> char \<Rightarrow> (token list \<times> lexst) option" where
  "lex_idle toks c =
     (if is_ws c then Some (toks, LIdle)
      else if c = CHR ''{'' then Some (TLBrace # toks, LIdle)
      else if c = CHR ''}'' then Some (TRBrace # toks, LIdle)
      else if c = CHR ''['' then Some (TLBracket # toks, LIdle)
      else if c = CHR '']'' then Some (TRBracket # toks, LIdle)
      else if c = CHR '':'' then Some (TColon # toks, LIdle)
      else if c = CHR '','' then Some (TComma # toks, LIdle)
      else if c = CHR 0x22 then Some (toks, LStr [] None)
      else if c = CHR ''-'' then Some (toks, LNum NMinus [c])
      else if c = CHR ''0'' then Some (toks, LNum NZero [c])
      else if is_digit19 c then Some (toks, LNum NInt [c])
      else if c = CHR ''t'' then Some (toks, LLit ''rue'' TTrue)
      else if c = CHR ''f'' then Some (toks, LLit ''alse'' TFalse)
      else if c = CHR ''n'' then Some (toks, LLit ''ull'' TNull)
      else None)"

text \<open>Inside a number: \<open>-? (0 | [1-9][0-9]*) (. [0-9]+)? ([eE] [+-]? [0-9]+)?\<close>. A
  character that cannot continue the number ends it where the number is complete, and is
  then read as the start of the next token.\<close>

fun lex_num :: "token list \<Rightarrow> numphase \<Rightarrow> string \<Rightarrow> char \<Rightarrow> (token list \<times> lexst) option" where
  "lex_num toks NMinus lx c =
     (if c = CHR ''0'' then Some (toks, LNum NZero (c # lx))
      else if is_digit19 c then Some (toks, LNum NInt (c # lx))
      else None)"
| "lex_num toks NZero lx c =
     (if c = CHR ''.'' then Some (toks, LNum NDot (c # lx))
      else if is_exp c then Some (toks, LNum NExp (c # lx))
      else lex_idle (TNum (rev lx) # toks) c)"
| "lex_num toks NInt lx c =
     (if is_digit c then Some (toks, LNum NInt (c # lx))
      else if c = CHR ''.'' then Some (toks, LNum NDot (c # lx))
      else if is_exp c then Some (toks, LNum NExp (c # lx))
      else lex_idle (TNum (rev lx) # toks) c)"
| "lex_num toks NDot lx c =
     (if is_digit c then Some (toks, LNum NFrac (c # lx)) else None)"
| "lex_num toks NFrac lx c =
     (if is_digit c then Some (toks, LNum NFrac (c # lx))
      else if is_exp c then Some (toks, LNum NExp (c # lx))
      else lex_idle (TNum (rev lx) # toks) c)"
| "lex_num toks NExp lx c =
     (if c = CHR ''+'' \<or> c = CHR ''-'' then Some (toks, LNum NExpSign (c # lx))
      else if is_digit c then Some (toks, LNum NExpDig (c # lx))
      else None)"
| "lex_num toks NExpSign lx c =
     (if is_digit c then Some (toks, LNum NExpDig (c # lx)) else None)"
| "lex_num toks NExpDig lx c =
     (if is_digit c then Some (toks, LNum NExpDig (c # lx))
      else lex_idle (TNum (rev lx) # toks) c)"

definition lex_esc :: "char \<Rightarrow> char option" where
  "lex_esc c =
     (if c = CHR 0x22 \<or> c = CHR 0x5C \<or> c = CHR ''/'' then Some c
      else if c = CHR ''b'' then Some (CHR 0x08)
      else if c = CHR ''f'' then Some (CHR 0x0C)
      else if c = CHR ''n'' then Some (CHR 0x0A)
      else if c = CHR ''r'' then Some (CHR 0x0D)
      else if c = CHR ''t'' then Some (CHR 0x09)
      else None)"

fun lex_step :: "token list \<Rightarrow> lexst \<Rightarrow> char \<Rightarrow> (token list \<times> lexst) option" where
  "lex_step toks LIdle c = lex_idle toks c"
| "lex_step toks (LStr acc pending) c =
     (if c = CHR 0x22 then Some (TStr (rev (flush acc pending)) # toks, LIdle)
      else if c = CHR 0x5C then Some (toks, LEsc acc pending)
      else if (of_char c :: nat) < 32 then None
      else Some (toks, LStr (c # flush acc pending) None))"
| "lex_step toks (LEsc acc pending) c =
     (if c = CHR ''u'' then Some (toks, LUni acc pending [])
      else (case lex_esc c of
              None \<Rightarrow> None
            | Some d \<Rightarrow> Some (toks, LStr (d # flush acc pending) None)))"
| "lex_step toks (LUni acc pending ds) c =
     (case hex_val c of
        None \<Rightarrow> None
      | Some d \<Rightarrow>
          (if length ds = 3
           then Some (toks, unicode_escape acc pending (foldl (\<lambda>n h. 16 * n + h) 0 (ds @ [d])))
           else Some (toks, LUni acc pending (ds @ [d]))))"
| "lex_step toks (LNum ph lx) c = lex_num toks ph lx c"
| "lex_step toks (LLit expected tok) c =
     (case expected of
        [] \<Rightarrow> None
      | x # xs \<Rightarrow>
          (if c \<noteq> x then None
           else if xs = [] then Some (tok # toks, LIdle)
           else Some (toks, LLit xs tok)))"

fun lex_end :: "token list \<Rightarrow> lexst \<Rightarrow> token list option" where
  "lex_end toks LIdle = Some (rev toks)"
| "lex_end toks (LNum ph lx) =
     (if ph = NZero \<or> ph = NInt \<or> ph = NFrac \<or> ph = NExpDig
      then Some (rev (TNum (rev lx) # toks)) else None)"
| "lex_end toks _ = None"

fun lex_run :: "token list \<Rightarrow> lexst \<Rightarrow> string \<Rightarrow> token list option" where
  "lex_run toks st [] = lex_end toks st"
| "lex_run toks st (c # cs) =
     (case lex_step toks st c of
        None \<Rightarrow> None
      | Some (toks', st') \<Rightarrow> lex_run toks' st' cs)"

definition tokenize :: "string \<Rightarrow> token list option" where
  "tokenize s = lex_run [] LIdle s"

text \<open>
  The recogniser keeps a stack of the arrays and objects that are open (their members so
  far, newest first, and for an object the key whose value is being read) and a mode that
  says which tokens may come next.
\<close>

datatype frame = FArr "js list" | FObj "(string \<times> js) list" | FKey string

datatype pmode = MValue | MFirstElem | MArrNext | MFirstKey | MKey | MColon | MObjNext | MDone js

fun deliver :: "js \<Rightarrow> frame list \<Rightarrow> (frame list \<times> pmode) option" where
  "deliver v [] = Some ([], MDone v)"
| "deliver v (FArr acc # st) = Some (FArr (v # acc) # st, MArrNext)"
| "deliver v (FKey k # FObj acc # st) = Some (FObj ((k, v) # acc) # st, MObjNext)"
| "deliver v _ = None"

fun scalar :: "token \<Rightarrow> js option" where
  "scalar (TStr s) = Some (JStr s)"
| "scalar (TNum n) = Some (JNum n)"
| "scalar TTrue = Some (JBool True)"
| "scalar TFalse = Some (JBool False)"
| "scalar TNull = Some JNull"
| "scalar _ = None"

definition parse_value :: "frame list \<Rightarrow> token \<Rightarrow> (frame list \<times> pmode) option" where
  "parse_value st t =
     (if t = TLBracket then Some (FArr [] # st, MFirstElem)
      else if t = TLBrace then Some (FObj [] # st, MFirstKey)
      else (case scalar t of None \<Rightarrow> None | Some v \<Rightarrow> deliver v st))"

fun close_arr :: "frame list \<Rightarrow> (frame list \<times> pmode) option" where
  "close_arr (FArr acc # st) = deliver (JArr (rev acc)) st"
| "close_arr _ = None"

fun close_obj :: "frame list \<Rightarrow> (frame list \<times> pmode) option" where
  "close_obj (FObj acc # st) = deliver (JObj (rev acc)) st"
| "close_obj _ = None"

fun parse_key :: "frame list \<Rightarrow> token \<Rightarrow> (frame list \<times> pmode) option" where
  "parse_key st (TStr k) = Some (FKey k # st, MColon)"
| "parse_key st _ = None"

fun parse_step :: "frame list \<Rightarrow> pmode \<Rightarrow> token \<Rightarrow> (frame list \<times> pmode) option" where
  "parse_step st MValue t = parse_value st t"
| "parse_step st MFirstElem t = (if t = TRBracket then close_arr st else parse_value st t)"
| "parse_step st MArrNext t =
     (if t = TComma then Some (st, MValue)
      else if t = TRBracket then close_arr st
      else None)"
| "parse_step st MFirstKey t = (if t = TRBrace then close_obj st else parse_key st t)"
| "parse_step st MKey t = parse_key st t"
| "parse_step st MColon t = (if t = TColon then Some (st, MValue) else None)"
| "parse_step st MObjNext t =
     (if t = TComma then Some (st, MKey)
      else if t = TRBrace then close_obj st
      else None)"
| "parse_step st (MDone v) t = None"

fun parse_run :: "frame list \<Rightarrow> pmode \<Rightarrow> token list \<Rightarrow> js option" where
  "parse_run st m [] = (case (st, m) of ([], MDone v) \<Rightarrow> Some v | _ \<Rightarrow> None)"
| "parse_run st m (t # ts) =
     (case parse_step st m t of
        None \<Rightarrow> None
      | Some (st', m') \<Rightarrow> parse_run st' m' ts)"

definition JSON_parse :: "string \<Rightarrow> js_error + js" where
  "JSON_parse s =
     (case tokenize s of
        None \<Rightarrow> Inl SyntaxError
      | Some toks \<Rightarrow>
          (case parse_run [] MValue toks of
             None \<Rightarrow> Inl SyntaxError
           | Some v \<Rightarrow> Inr v))"

subsection \<open>Property access and Array.prototype.map\<close>

text \<open>
  \<open>get_prop v k\<close> is the expression \<open>v.k\<close> for the property names the program reads
  (\<open>environments_info\<close>, \<open>prefix\<close>, \<open>project_info\<close>, \<open>version\<close>), which no built-in
  prototype defines: reading a property of \<open>undefined\<close> or \<open>null\<close> throws a TypeError,
  an object gives its own member or \<open>undefined\<close>, every other value gives \<open>undefined\<close>.
\<close>

fun get_prop :: "js \<Rightarrow> string \<Rightarrow> js_error + js" where
  "get_prop JUndefined k = Inl TypeError"
| "get_prop JNull k = Inl TypeError"
| "get_prop (JObj kvs) k = Inr (case map_of (rev kvs) k of None \<Rightarrow> JUndefined | Some v \<Rightarrow> v)"
| "get_prop _ k = Inr JUndefined"

text \<open>\<open>xs.map(f)\<close> on an array: the first callback that throws ends the call.\<close>

fun array_map :: "(js \<Rightarrow> js_error + js) \<Rightarrow> js list \<Rightarrow> js_error + js list" where
  "array_map f [] = Inr []"
| "array_map f (x # xs) =
     (case f x of
        Inl e \<Rightarrow> Inl e
      | Inr y \<Rightarrow> (case array_map f xs of Inl e \<Rightarrow> Inl e | Inr ys \<Rightarrow> Inr (y # ys)))"

text \<open>
  Whether a JSON number literal denotes zero as a double. The literal stands for
  \<open>D * 10 ^ E\<close>, where \<open>D\<close> is the number that the digits of its integer and fraction
  part spell and \<open>E\<close> is its exponent less the number of fraction digits. It is zero as a
  double when \<open>D\<close> is zero, or when the value is at most \<open>2 ^ -1075\<close>, half the smallest
  positive double, and is rounded to zero.
\<close>

definition digits_value :: "string \<Rightarrow> int" where
  "digits_value ds = foldl (\<lambda>n c. 10 * n + (of_char c - 48)) 0 ds"

definition number_is_zero :: "string \<Rightarrow> bool" where
  "number_is_zero lexeme =
     (let body = (case lexeme of c # cs \<Rightarrow> if c = CHR ''-'' then cs else lexeme | [] \<Rightarrow> []);
          mantissa = takeWhile (\<lambda>c. c \<noteq> CHR ''e'' \<and> c \<noteq> CHR ''E'') body;
          exponent = drop (Suc (length mantissa)) body;
          whole = takeWhile (\<lambda>c. c \<noteq> CHR ''.'') mantissa;
          fraction = drop (Suc (length whole)) mantissa;
          D = digits_value (whole @ fraction);
          X = (case exponent of
                 [] \<Rightarrow> 0
               | c # cs \<Rightarrow>
                   if c = CHR ''-'' then - digits_value cs
                   else if c = CHR ''+'' then digits_value cs
                   else digits_value exponent);
          E = X - int (length fraction)
      in if D = 0 then True
         else if 0 \<le> E then False
         else D * 2 ^ 1075 \<le> 10 ^ nat (- E))"

text \<open>The conversion to a boolean that \<open>!v\<close> applies: \<open>undefined\<close>, \<open>null\<close>,
  \<open>false\<close>, a zero and the empty string are falsy, everything else is truthy (a number
  that \<open>JSON.parse\<close> returns is never NaN).\<close>

definition toBoolean :: "js \<Rightarrow> bool" where
  "toBoolean v =
     (case v of
        JUndefined \<Rightarrow> False
      | JNull \<Rightarrow> False
      | JBool b \<Rightarrow> b
      | JNum n \<Rightarrow> \<not> number_is_zero n
      | JStr t \<Rightarrow> t \<noteq> []
      | JArr xs \<Rightarrow> True
      | JObj kvs \<Rightarrow> True)"

section \<open>External collaborators\<close>

text \<open>
  Everything the module imports is a parameter of the model. \<open>path_module\<close> holds the
  functions of Node's \<open>path\<close> that the code calls; they are total on strings.
  \<open>exec_call\<close> records one call of \<open>exec(file, args, options)\<close>. A \<open>world\<close> is what the
  collaborators answer during one operation: the promise \<open>exec\<close> returns is rejected
  (\<open>Inl\<close>) or resolved with the standard output (\<open>Inr\<close>); \<open>getPythonSetting\<close> may throw;
  \<open>pathExists\<close> and \<open>getCondaInterpreterPath\<close> receive whatever value the tool reported as
  a prefix; \<open>now\<close> is the clock reading.
\<close>

datatype os_type = Unknown | Windows | OSX | Linux

record path_module =
  dirname :: "string \<Rightarrow> string"
  basename :: "string \<Rightarrow> string"
  join :: "string list \<Rightarrow> string"

record exec_call =
  call_file :: string
  call_args :: "string list"
  opt_cwd :: string
  throwOnStdErr :: bool

record world =
  exec :: "exec_call \<Rightarrow> js_error + string"
  getPythonSetting :: "string \<Rightarrow> js_error + string option"
  getUserHomeDir :: "string option"
  pathExistsSync :: "string \<Rightarrow> bool"
  pathExists :: "js \<Rightarrow> bool"
  getCondaInterpreterPath :: "js \<Rightarrow> js_error + string option"
  isParentPath :: "string \<Rightarrow> string \<Rightarrow> bool"
  isTestExecution :: bool
  getOSType :: os_type
  path :: path_module
  now :: nat

section \<open>Deriving directories from an interpreter path\<close>

definition getCondaEnvironmentFromInterpreterPath :: "path_module \<Rightarrow> os_type \<Rightarrow> string \<Rightarrow> string" where
  "getCondaEnvironmentFromInterpreterPath pm os interpreterPath =
     (let interpreterDir = dirname pm interpreterPath
      in if os = Windows then interpreterDir else dirname pm interpreterDir)"

definition getPixiProjectFolderFromInterpreter :: "path_module \<Rightarrow> os_type \<Rightarrow> string \<Rightarrow> string" where
  "getPixiProjectFolderFromInterpreter pm os interpreterPath =
     (let envDir = getCondaEnvironmentFromInterpreterPath pm os interpreterPath;
          envsDir = dirname pm envDir;
          pixiDir = dirname pm envsDir;
          projectDir = dirname pm pixiDir
      in projectDir)"

definition isPixiEnvironment :: "world \<Rightarrow> string \<Rightarrow> bool" where
  "isPixiEnvironment w interpreterPath =
     (let projectDir = getPixiProjectFolderFromInterpreter (path w) (getOSType w) interpreterPath;
          pixiTomlPath = join (path w) [projectDir, ''pixi.toml'']
      in pathExists w (JStr pixiTomlPath))"

definition isPixiEnvironmentRelatedToFolder :: "world \<Rightarrow> string \<Rightarrow> string \<Rightarrow> bool" where
  "isPixiEnvironmentRelatedToFolder w interpreterPath folder =
     (let projectPath = getPixiProjectFolderFromInterpreter (path w) (getOSType w) interpreterPath
      in isParentPath w folder projectPath)"

section \<open>The class Pixi\<close>

subsection \<open>The caching decorator\<close>

text \<open>
  Modelled from the spec: the decorator \<open>@cache\<close> (common/utils/decorators) is not among
  the sources. The spec describes it as a mapping from a key to a value and an expiry
  timestamp, with a time to live, the key being the call's argument, and each handle
  owning its caches: 30 seconds for the list of prefixes, 1 second for the info snapshot
  (the first argument of the decorator in the source; its third argument, another time to
  live, has no counterpart in the spec and is not modelled). The promise itself is what is
  cached, so a rejection is remembered like a result.
\<close>

type_synonym 'a cache = "string \<rightharpoonup> nat \<times> 'a"

text \<open>Modelled from the spec: reading the decorator's store (not among the sources); an
  entry counts until its expiry timestamp.\<close>

definition cache_lookup :: "nat \<Rightarrow> 'a cache \<Rightarrow> string \<Rightarrow> 'a option" where
  "cache_lookup t c k =
     (case c k of
        None \<Rightarrow> None
      | Some (expiry, v) \<Rightarrow> if t < expiry then Some v else None)"

text \<open>Modelled from the spec: writing the decorator's store (not among the sources); the
  entry expires one time to live after the clock reading.\<close>

definition cache_store :: "nat \<Rightarrow> nat \<Rightarrow> string \<Rightarrow> 'a \<Rightarrow> 'a cache \<Rightarrow> 'a cache" where
  "cache_store t ttl k v c = c(k \<mapsto> (t + ttl, v))"

subsection \<open>Objects and the program state\<close>

text \<open>
  A \<open>Pixi\<close> object has its two constructor fields and its two caches. Objects live in
  \<open>heap\<close>, addressed by the number \<open>new_Pixi\<close> gave them, because the registry and its
  callers share them. \<open>pixiPromise\<close> is the static map of the class, holding for a
  working directory the outcome of the promise stored there. \<open>execLog\<close> lists the calls of
  \<open>exec\<close> so far and \<open>errorLog\<close> the errors handed to \<open>traceError\<close>, oldest first
  (verbose and warning traces are not recorded).
\<close>

record pixi =
  command :: string
  cwd :: string
  envListCache :: "(js_error + js) cache"
  infoCache :: "(js_error + js) cache"

record state =
  pixiPromise :: "string \<rightharpoonup> js_error + nat option"
  heap :: "nat \<Rightarrow> pixi"
  nextId :: nat
  execLog :: "exec_call list"
  errorLog :: "js_error list"

definition new_Pixi :: "string \<Rightarrow> string \<Rightarrow> state \<Rightarrow> nat \<times> state" where
  "new_Pixi c d s =
     (nextId s,
      s\<lparr>heap := (heap s)(nextId s :=
           \<lparr>command = c, cwd = d, envListCache = Map.empty, infoCache = Map.empty\<rparr>),
        nextId := Suc (nextId s)\<rparr>)"

text \<open>
  Modelled from the spec: a decorated method (see the decorator above). \<open>get\<close> and \<open>upd\<close>
  select the cache of the method in the object; a live entry is returned without running
  the body, otherwise the body runs and its outcome is stored under the key.
\<close>

definition cached ::
  "nat \<Rightarrow> (pixi \<Rightarrow> 'a cache) \<Rightarrow> (('a cache \<Rightarrow> 'a cache) \<Rightarrow> pixi \<Rightarrow> pixi) \<Rightarrow>
   (world \<Rightarrow> nat \<Rightarrow> string \<Rightarrow> state \<Rightarrow> 'a \<times> state) \<Rightarrow>
   world \<Rightarrow> nat \<Rightarrow> string \<Rightarrow> state \<Rightarrow> 'a \<times> state" where
  "cached ttl get upd body w h k s =
     (case cache_lookup (now w) (get (heap s h)) k of
        Some r \<Rightarrow> (r, s)
      | None \<Rightarrow>
          (let (r, s1) = body w h k s
           in (r, s1\<lparr>heap := (heap s1)(h := upd (cache_store (now w) ttl k r) (heap s1 h))\<rparr>)))"

subsection \<open>getPixiInfo, getEnvListCached, getEnvList\<close>

definition info_call :: "pixi \<Rightarrow> exec_call" where
  "info_call p =
     \<lparr>call_file = command p, call_args = [''info'', ''--json''], opt_cwd = cwd p,
      throwOnStdErr = False\<rparr>"

text \<open>
  The body of \<open>getPixiInfo\<close>. A rejected \<open>exec\<close> is handed to \<open>traceError\<close>, whose
  result \<open>undefined\<close> makes the method return \<open>undefined\<close>. Otherwise the standard output
  goes through \<open>JSON.parse\<close>, outside any handler: what it throws rejects the method's
  promise, and what it returns is returned as it is.
\<close>

definition getPixiInfo_body :: "world \<Rightarrow> nat \<Rightarrow> string \<Rightarrow> state \<Rightarrow> (js_error + js) \<times> state" where
  "getPixiInfo_body w h cwd_arg s =
     (let call = info_call (heap s h);
          s1 = s\<lparr>execLog := execLog s @ [call]\<rparr>
      in case exec w call of
           Inl e \<Rightarrow> (Inr JUndefined, s1\<lparr>errorLog := errorLog s1 @ [e]\<rparr>)
         | Inr stdout \<Rightarrow> (JSON_parse stdout, s1))"

definition getPixiInfo :: "world \<Rightarrow> nat \<Rightarrow> string \<Rightarrow> state \<Rightarrow> (js_error + js) \<times> state" where
  "getPixiInfo = cached 1000 infoCache infoCache_update getPixiInfo_body"

text \<open>The expression \<open>pixiInfo?.environments_info.map((env) => env.prefix)\<close>: the
  optional chain gives \<open>undefined\<close> for \<open>undefined\<close> and \<open>null\<close>; calling \<open>map\<close> on
  anything but an array throws a TypeError.\<close>

definition env_prefixes :: "js \<Rightarrow> js_error + js" where
  "env_prefixes pixiInfo =
     (if pixiInfo = JUndefined \<or> pixiInfo = JNull then Inr JUndefined
      else (case get_prop pixiInfo ''environments_info'' of
              Inl e \<Rightarrow> Inl e
            | Inr (JArr envs) \<Rightarrow>
                (case array_map (\<lambda>env. get_prop env ''prefix'') envs of
                   Inl e \<Rightarrow> Inl e
                 | Inr ps \<Rightarrow> Inr (JArr ps))
            | Inr _ \<Rightarrow> Inl TypeError))"

definition getEnvListCached_body :: "world \<Rightarrow> nat \<Rightarrow> string \<Rightarrow> state \<Rightarrow> (js_error + js) \<times> state" where
  "getEnvListCached_body w h c s =
     (let (r, s1) = getPixiInfo w h c s
      in case r of
           Inl e \<Rightarrow> (Inl e, s1)
         | Inr pixiInfo \<Rightarrow> (env_prefixes pixiInfo, s1))"

definition getEnvListCached :: "world \<Rightarrow> nat \<Rightarrow> string \<Rightarrow> state \<Rightarrow> (js_error + js) \<times> state" where
  "getEnvListCached = cached 30000 envListCache envListCache_update getEnvListCached_body"

definition getEnvList :: "world \<Rightarrow> nat \<Rightarrow> state \<Rightarrow> (js_error + js) \<times> state" where
  "getEnvList w h s = getEnvListCached w h (cwd (heap s h)) s"

subsection \<open>getRunPythonArgs\<close>

definition isNonDefaultPixiEnvironmentName :: "string option \<Rightarrow> bool" where
  "isNonDefaultPixiEnvironmentName envName = (envName \<noteq> None \<and> envName \<noteq> Some ''default'')"

text \<open>The constant \<open>OUTPUT_MARKER_SCRIPT\<close> is imported from another module and is the
  first parameter here; \<open>cmd\<close> is \<open>this.command\<close>, the only part of the object the
  method reads.\<close>

definition getRunPythonArgs :: "string \<Rightarrow> string \<Rightarrow> string \<Rightarrow> string option \<Rightarrow> bool \<Rightarrow> string list" where
  "getRunPythonArgs OUTPUT_MARKER_SCRIPT cmd manifestPath envName isolatedFlag =
     (let python = [cmd, ''run'', ''--manifest-path'', manifestPath];
          python = (case envName of
                      Some n \<Rightarrow>
                        if isNonDefaultPixiEnvironmentName envName
                        then python @ [''--environment'', n] else python
                    | None \<Rightarrow> python);
          python = python @ [''python''];
          python = (if isolatedFlag then python @ [''-I''] else python)
      in python @ [OUTPUT_MARKER_SCRIPT])"

subsection \<open>locate and getPixi\<close>

text \<open>
  The generator \<open>getCandidates\<close> yields up to three commands. A setting that is
  \<open>undefined\<close> or the empty string is falsy; a throwing read is logged and yields
  nothing. The collaborators are read-only, so the lazily produced sequence is the list
  below.
\<close>

definition setting_candidates :: "world \<Rightarrow> string list" where
  "setting_candidates w =
     (case getPythonSetting w ''pixiToolPath'' of
        Inl ex \<Rightarrow> []
      | Inr None \<Rightarrow> []
      | Inr (Some custompixiToolPath) \<Rightarrow>
          if custompixiToolPath \<noteq> [] \<and> custompixiToolPath \<noteq> ''pixi''
          then [custompixiToolPath] else [])"

definition setting_errors :: "world \<Rightarrow> js_error list" where
  "setting_errors w = (case getPythonSetting w ''pixiToolPath'' of Inl ex \<Rightarrow> [ex] | Inr _ \<Rightarrow> [])"

definition home_candidates :: "world \<Rightarrow> string list" where
  "home_candidates w =
     (case getUserHomeDir w of
        None \<Rightarrow> []
      | Some home \<Rightarrow>
          if home = [] then []
          else (let defaultpixiToolPath = join (path w) [home, ''.pixi'', ''bin'', ''pixi'']
                in if pathExistsSync w defaultpixiToolPath then [defaultpixiToolPath] else []))"

definition getCandidates :: "world \<Rightarrow> string list" where
  "getCandidates w = setting_candidates w @ [''pixi''] @ home_candidates w"

text \<open>The loop of \<open>locate\<close> over the candidates: a new object for each, one call of
  \<open>getEnvList\<close> on it; a rejection leaves the loop and the function.\<close>

fun probe :: "world \<Rightarrow> string \<Rightarrow> string list \<Rightarrow> state \<Rightarrow> (js_error + nat option) \<times> state" where
  "probe w d [] s = (Inr None, s)"
| "probe w d (pixiToolPath # rest) s =
     (let (h, s1) = new_Pixi pixiToolPath d s;
          (virtualenvs, s2) = getEnvList w h s1
      in case virtualenvs of
           Inl e \<Rightarrow> (Inl e, s2)
         | Inr v \<Rightarrow> if v \<noteq> JUndefined then (Inr (Some h), s2) else probe w d rest s2)"

definition locate :: "world \<Rightarrow> string \<Rightarrow> state \<Rightarrow> (js_error + nat option) \<times> state" where
  "locate w d s =
     probe w d (getCandidates w) (s\<lparr>errorLog := errorLog s @ setting_errors w\<rparr>)"

definition getPixi :: "world \<Rightarrow> string \<Rightarrow> state \<Rightarrow> (js_error + nat option) \<times> state" where
  "getPixi w d s =
     (let s1 = (if pixiPromise s d = None \<or> isTestExecution w
                then (let (r, s') = locate w d s
                      in s'\<lparr>pixiPromise := (pixiPromise s')(d \<mapsto> r)\<rparr>)
                else s)
      in (case pixiPromise s1 d of None \<Rightarrow> Inr None | Some r \<Rightarrow> r, s1))"

subsection \<open>getPixiEnvironmentFromInterpreter\<close>

text \<open>
  The handle is the one \<open>getPixi\<close> gives for the derived project directory, and the
  same directory is the argument of \<open>getPixiInfo\<close>. The test
  \<open>!pixiInfo || !pixiInfo.project_info\<close> reads the property only of a truthy value.
\<close>

record pixi_environment_info =
  interpreterPath :: string
  pixiHandle :: nat
  pixiVersion :: js
  projectInfo :: js
  projectDir :: string
  envName :: string


section \<open>The locator\<close>

text \<open>The members of \<open>PythonEnvKind\<close> other than \<open>Pixi\<close> are one constructor here.\<close>

datatype python_env_kind = Pixi | OtherKind

record basic_env_info =
  executablePath :: string
  kind :: python_env_kind
  envPath :: js

text \<open>
  Modelled from the spec: \<open>asyncFilter\<close> (common/utils/arrayUtils) is not among the
  sources. The spec says the prefixes are filtered to those that still exist on disk and
  that the filtering preserves their relative order.
\<close>

definition asyncFilter :: "('a \<Rightarrow> bool) \<Rightarrow> 'a list \<Rightarrow> 'a list" where
  "asyncFilter p xs = filter p xs"

text \<open>
  \<open>getVirtualEnvDirs\<close>: \<open>(await pixi?.getEnvList()) ?? []\<close> is the empty list without a
  handle and for \<open>undefined\<close> or \<open>null\<close>. A value that is neither of these nor an array
  cannot be filtered; the model makes that a TypeError.
\<close>

definition getVirtualEnvDirs :: "world \<Rightarrow> string \<Rightarrow> state \<Rightarrow> (js_error + js list) \<times> state" where
  "getVirtualEnvDirs w root s =
     (let (r, s1) = getPixi w root s
      in case r of
           Inl e \<Rightarrow> (Inl e, s1)
         | Inr None \<Rightarrow> (Inr (asyncFilter (pathExists w) []), s1)
         | Inr (Some h) \<Rightarrow>
             (let (l, s2) = getEnvList w h s1
              in case l of
                   Inl e \<Rightarrow> (Inl e, s2)
                 | Inr JUndefined \<Rightarrow> (Inr (asyncFilter (pathExists w) []), s2)
                 | Inr JNull \<Rightarrow> (Inr (asyncFilter (pathExists w) []), s2)
                 | Inr (JArr envDirs) \<Rightarrow> (Inr (asyncFilter (pathExists w) envDirs), s2)
                 | Inr _ \<Rightarrow> (Inl TypeError, s2)))"

text \<open>
  The inner generator for one environment directory. The call of
  \<open>getCondaInterpreterPath\<close> is awaited before the \<open>try\<close> block, which encloses only the
  \<open>yield\<close> and a verbose trace; so a rejection of that call ends the generator with the
  error, and otherwise the generator yields one record or none. The consumer never throws
  into the generator, so the \<open>catch\<close> branch has no run in this model.
\<close>

definition generator :: "world \<Rightarrow> js \<Rightarrow> js_error + basic_env_info list" where
  "generator w envDir =
     (case getCondaInterpreterPath w envDir of
        Inl e \<Rightarrow> Inl e
      | Inr None \<Rightarrow> Inr []
      | Inr (Some filename) \<Rightarrow>
          Inr [\<lparr>executablePath = filename, kind = Pixi, envPath = envDir\<rparr>])"

text \<open>
  Modelled from the spec: \<open>chain\<close> and \<open>iterable\<close> (common/utils/async) are not among
  the sources. The spec says that the records are yielded in the order of their prefixes,
  and that a failure while resolving one environment is caught and logged, that single
  environment is skipped, and the remaining sequence is not aborted. \<open>chain\<close> takes the
  outcome of each generator (its error, or what it yielded) and returns what is yielded in
  all and the errors it logged.
\<close>

fun chain :: "(js_error + 'a list) list \<Rightarrow> 'a list \<times> js_error list" where
  "chain [] = ([], [])"
| "chain (g # gs) =
     (let (ys, es) = chain gs
      in case g of
           Inl e \<Rightarrow> (ys, e # es)
         | Inr xs \<Rightarrow> (xs @ ys, es))"

text \<open>\<open>doIterEnvs\<close> returns what the iterator yields and the error that ends it, if any.\<close>

definition doIterEnvs ::
  "world \<Rightarrow> string \<Rightarrow> state \<Rightarrow> (basic_env_info list \<times> js_error option) \<times> state" where
  "doIterEnvs w root s =
     (let (r, s1) = getVirtualEnvDirs w root s
      in case r of
           Inl e \<Rightarrow> (([], Some e), s1)
         | Inr envDirs \<Rightarrow>
             (let (ys, es) = chain (map (generator w) envDirs)
              in ((ys, None), s1\<lparr>errorLog := errorLog s1 @ es\<rparr>)))"

section \<open>Auxiliary definitions for the statements\<close>

text \<open>The call of \<open>exec\<close> that an object with command \<open>c\<close> and working directory \<open>d\<close>
  makes, and what \<open>getEnvList\<close> computes from the answer to it when nothing is cached.\<close>

definition mk_call :: "string \<Rightarrow> string \<Rightarrow> exec_call" where
  "mk_call c d =
     \<lparr>call_file = c, call_args = [''info'', ''--json''], opt_cwd = d, throwOnStdErr = False\<rparr>"

definition probe_outcome :: "world \<Rightarrow> string \<Rightarrow> string \<Rightarrow> js_error + js" where
  "probe_outcome w c d =
     (case exec w (mk_call c d) of
        Inl e \<Rightarrow> Inr JUndefined
      | Inr out \<Rightarrow> (case JSON_parse out of Inl e \<Rightarrow> Inl e | Inr info \<Rightarrow> env_prefixes info))"

text \<open>What the generator of one environment directory contributes: its record, and the
  error of a failed resolution.\<close>

definition resolved :: "world \<Rightarrow> js \<Rightarrow> basic_env_info list" where
  "resolved w envDir =
     (case getCondaInterpreterPath w envDir of
        Inr (Some filename) \<Rightarrow> [\<lparr>executablePath = filename, kind = Pixi, envPath = envDir\<rparr>]
      | _ \<Rightarrow> [])"

definition resolve_errors :: "world \<Rightarrow> js \<Rightarrow> js_error list" where
  "resolve_errors w envDir = (case getCondaInterpreterPath w envDir of Inl e \<Rightarrow> [e] | Inr _ \<Rightarrow> [])"




subsection \<open>Concrete inputs\<close>

text \<open>
  \<open>posix_dirname\<close> follows \<open>path.posix.dirname\<close> of Node: trailing slashes are skipped,
  then the last segment, and what stands before the slash found there is returned as it
  is; \<open>.\<close> for a path without a directory part, \<open>/\<close> and \<open>//\<close> for the roots.
  \<open>posix_basename\<close> is the last segment, trailing slashes apart. \<open>posix_join\<close> follows
  \<open>path.posix.join\<close>: the non-empty arguments are joined with slashes and the result is
  normalised (empty and \<open>.\<close> segments are dropped, \<open>..\<close> removes the segment before
  it, or stays at the front of a relative path; a trailing slash is kept).
\<close>

definition posix_dirname :: "string \<Rightarrow> string" where
  "posix_dirname p =
     (case p of
        [] \<Rightarrow> ''.''
      | c # cs \<Rightarrow>
          (let r = dropWhile (\<lambda>x. x \<noteq> CHR ''/'') (dropWhile (\<lambda>x. x = CHR ''/'') (rev cs))
           in if r = [] then (if c = CHR ''/'' then ''/'' else ''.'')
              else if c = CHR ''/'' \<and> length r = 1 then ''//''
              else take (length r) p))"

definition posix_basename :: "string \<Rightarrow> string" where
  "posix_basename p =
     rev (takeWhile (\<lambda>x. x \<noteq> CHR ''/'') (dropWhile (\<lambda>x. x = CHR ''/'') (rev p)))"

fun split_slash :: "string \<Rightarrow> string list" where
  "split_slash [] = [[]]"
| "split_slash (c # cs) =
     (if c = CHR ''/'' then [] # split_slash cs
      else (case split_slash cs of
              [] \<Rightarrow> [[c]]
            | seg # segs \<Rightarrow> (c # seg) # segs))"

fun join_segments :: "string list \<Rightarrow> string" where
  "join_segments [] = []"
| "join_segments [p] = p"
| "join_segments (p # ps) = p @ ''/'' @ join_segments ps"

text \<open>One segment of \<open>normalizeString\<close>; the segments kept so far are in \<open>kept\<close>, the
  last one first.\<close>

definition normalize_step :: "bool \<Rightarrow> string list \<Rightarrow> string \<Rightarrow> string list" where
  "normalize_step allowAboveRoot kept seg =
     (if seg = [] \<or> seg = ''.'' then kept
      else if seg = ''..''
      then (case kept of
              [] \<Rightarrow> if allowAboveRoot then [''..''] else []
            | lastSegment # rest \<Rightarrow>
                if lastSegment = ''..'' then (if allowAboveRoot then ''..'' # kept else kept)
                else rest)
      else seg # kept)"

definition posix_normalize :: "string \<Rightarrow> string" where
  "posix_normalize p =
     (if p = [] then ''.''
      else (let isAbsolute = (hd p = CHR ''/'');
                trailingSeparator = (last p = CHR ''/'');
                body = join_segments
                         (rev (foldl (normalize_step (\<not> isAbsolute)) [] (split_slash p)))
            in if body = []
               then (if isAbsolute then ''/'' else if trailingSeparator then ''./'' else ''.'')
               else (if isAbsolute then ''/'' else []) @ body
                    @ (if trailingSeparator then ''/'' else [])))"

definition posix_join :: "string list \<Rightarrow> string" where
  "posix_join parts =
     (let joined = join_segments (filter (\<lambda>p. p \<noteq> []) parts)
      in if joined = [] then ''.'' else posix_normalize joined)"

definition posix_path :: path_module where
  "posix_path = \<lparr>dirname = posix_dirname, basename = posix_basename, join = posix_join\<rparr>"

definition s0 :: state where
  "s0 =
     \<lparr>pixiPromise = Map.empty,
      heap = (\<lambda>h. \<lparr>command = [], cwd = [], envListCache = Map.empty, infoCache = Map.empty\<rparr>),
      nextId = 0, execLog = [], errorLog = []\<rparr>"

definition exec_reject :: "exec_call \<Rightarrow> js_error + string" where
  "exec_reject c = Inl (Failure ''spawn ENOENT'')"

definition exec_stdout :: "string \<Rightarrow> exec_call \<Rightarrow> js_error + string" where
  "exec_stdout out c = Inr out"

definition exec_only :: "string \<Rightarrow> string \<Rightarrow> exec_call \<Rightarrow> js_error + string" where
  "exec_only f out c = (if call_file c = f then Inr out else Inl (Failure ''spawn ENOENT''))"

definition setting_is :: "string \<Rightarrow> string \<Rightarrow> js_error + string option" where
  "setting_is v name = Inr (Some v)"

definition bin_python :: "js \<Rightarrow> js_error + string option" where
  "bin_python envDir = (case envDir of JStr p \<Rightarrow> Inr (Some (p @ ''/bin/python'')) | _ \<Rightarrow> Inr None)"

definition bin_python_except :: "string \<Rightarrow> js \<Rightarrow> js_error + string option" where
  "bin_python_except bad envDir =
     (if envDir = JStr bad then Inl (Failure ''EACCES'') else bin_python envDir)"

definition all_but :: "string \<Rightarrow> js \<Rightarrow> bool" where
  "all_but gone v = (v \<noteq> JStr gone)"

definition everything :: "js \<Rightarrow> bool" where
  "everything v = True"

definition mk_world ::
  "(exec_call \<Rightarrow> js_error + string) \<Rightarrow> (string \<Rightarrow> js_error + string option) \<Rightarrow>
   (js \<Rightarrow> bool) \<Rightarrow> (js \<Rightarrow> js_error + string option) \<Rightarrow> world" where
  "mk_world ex setting exists resolve =
     \<lparr>exec = ex, getPythonSetting = setting, getUserHomeDir = None,
      pathExistsSync = (\<lambda>p. False), pathExists = exists,
      getCondaInterpreterPath = resolve, isParentPath = (\<lambda>folder p. take (length folder) p = folder),
      isTestExecution = False, getOSType = Linux,
      path = posix_path, now = 0\<rparr>"

definition tool_info_literal :: string where
  \<open>tool_info_literal = ''{"version":"1","platform":"linux","virtual_packages":[],"cache_dir":"/c","auth_dir":"/a","environments_info":[{"name":"default","features":[],"solve_group":"g","environment_size":0,"dependencies":[],"tasks":[],"channels":[],"prefix":"/proj/.pixi/envs/default"}]}''\<close>

definition tool_info_document :: js where
  "tool_info_document =
     JObj
       [(''version'', JStr ''1''), (''platform'', JStr ''linux''),
        (''virtual_packages'', JArr []), (''cache_dir'', JStr ''/c''),
        (''auth_dir'', JStr ''/a''),
        (''environments_info'',
         JArr
          [JObj
            [(''name'', JStr ''default''), (''features'', JArr []),
             (''solve_group'', JStr ''g''), (''environment_size'', JNum ''0''),
             (''dependencies'', JArr []), (''tasks'', JArr []),
             (''channels'', JArr []),
             (''prefix'', JStr ''/proj/.pixi/envs/default'')]])]"

definition no_envs_literal :: string where
  \<open>no_envs_literal = ''{"environments_info":[]}''\<close>

definition three_envs_literal :: string where
  \<open>three_envs_literal = ''{"environments_info":[{"prefix":"/proj/.pixi/envs/default"},{"prefix":"/proj/.pixi/envs/py310"},{"prefix":"/proj/.pixi/envs/py311"}]}''\<close>

definition three_envs :: "js list" where
  "three_envs =
     [JStr ''/proj/.pixi/envs/default'', JStr ''/proj/.pixi/envs/py310'',
      JStr ''/proj/.pixi/envs/py311'']"

definition world_with :: "(exec_call \<Rightarrow> js_error + string) \<Rightarrow> world" where
  "world_with ex = mk_world ex (setting_is ''pixi'') everything bin_python"

definition proj_state :: state where
  "proj_state = snd (new_Pixi ''pixi'' ''/proj'' s0)"

definition exec_in_dir :: "string \<Rightarrow> string \<Rightarrow> exec_call \<Rightarrow> js_error + string" where
  "exec_in_dir d out c = (if opt_cwd c = d then Inr out else Inl (Failure ''no project''))"

text \<open>A tool that answers by the name it is called with, and a document with the keys
  that \<open>getPixiEnvironmentFromInterpreter\<close> reads.\<close>

definition exec_table :: "(string \<times> string) list \<Rightarrow> exec_call \<Rightarrow> js_error + string" where
  "exec_table outputs c =
     (case map_of outputs (call_file c) of
        None \<Rightarrow> Inl (Failure ''spawn ENOENT'')
      | Some out \<Rightarrow> Inr out)"



section \<open>Evaluating the parser\<close>

lemma JSON_parse_tool_info: "JSON_parse tool_info_literal = Inr tool_info_document"
  unfolding tool_info_literal_def tool_info_document_def by code_simp

lemma JSON_parse_no_envs:
  "JSON_parse no_envs_literal = Inr (JObj [(''environments_info'', JArr [])])"
  unfolding no_envs_literal_def by code_simp

lemma JSON_parse_three_envs:
  "JSON_parse three_envs_literal =
     Inr (JObj [(''environments_info'',
       JArr [JObj [(''prefix'', JStr ''/proj/.pixi/envs/default'')],
             JObj [(''prefix'', JStr ''/proj/.pixi/envs/py310'')],
             JObj [(''prefix'', JStr ''/proj/.pixi/envs/py311'')]])])"
  unfolding three_envs_literal_def by code_simp


lemma JSON_parse_not_json: "JSON_parse ''not json'' = Inl SyntaxError"
  by code_simp

lemma JSON_parse_examples:
  \<open>JSON_parse '' {"a" : [1, -2.5e+3, true, null], "a" : "x"} '' =
     Inr (JObj [(''a'', JArr [JNum ''1'', JNum ''-2.5e+3'', JBool True, JNull]),
                (''a'', JStr ''x'')])
   \<and> JSON_parse ''null'' = Inr JNull
   \<and> JSON_parse [] = Inl SyntaxError
   \<and> JSON_parse ''[1,]'' = Inl SyntaxError
   \<and> JSON_parse ''{"a":1,}'' = Inl SyntaxError
   \<and> JSON_parse ''01'' = Inl SyntaxError
   \<and> JSON_parse ''{} {}'' = Inl SyntaxError\<close>
  by code_simp

lemma JSON_parse_escapes:
  "JSON_parse ([CHR 0x22, CHR 0x5C] @ ''ud83d'' @ [CHR 0x5C] @ ''ude00'' @ [CHR 0x22]) =
     Inr (JStr [CHR 0xF0, CHR 0x9F, CHR 0x98, CHR 0x80])
   \<and> JSON_parse ([CHR 0x22, CHR 0xF0, CHR 0x9F, CHR 0x98, CHR 0x80, CHR 0x22]) =
     Inr (JStr [CHR 0xF0, CHR 0x9F, CHR 0x98, CHR 0x80])
   \<and> JSON_parse ([CHR 0x22, CHR 0x5C] @ ''u00e9'' @ [CHR 0x5C] @ ''n'' @ [CHR 0x22]) =
     Inr (JStr [CHR 0xC3, CHR 0xA9, CHR 0x0A])
   \<and> JSON_parse ([CHR 0x22, CHR 0x5C] @ ''ud83d'' @ ''x'' @ [CHR 0x22]) =
     Inr (JStr [CHR 0xED, CHR 0xA0, CHR 0xBD, CHR ''x''])
   \<and> JSON_parse ([CHR 0x22, CHR 0x5C] @ ''ud83'' @ [CHR 0x22]) = Inl SyntaxError"
  by code_simp

lemma JSON_parse_empty_object: "JSON_parse ''{}'' = Inr (JObj [])"
  by code_simp

lemma env_prefixes_nullish:
  "env_prefixes JUndefined = Inr JUndefined" "env_prefixes JNull = Inr JUndefined"
  by (simp_all add: env_prefixes_def)

lemma env_prefixes_tool_info:
  "env_prefixes tool_info_document = Inr (JArr [JStr ''/proj/.pixi/envs/default''])"
  by (simp add: env_prefixes_def tool_info_document_def)

section \<open>Evaluating the conversions and the path functions\<close>

lemma number_is_zero_examples:
  "number_is_zero ''0'' \<and> number_is_zero ''-0'' \<and> number_is_zero ''0.0'' \<and> number_is_zero ''0e0''
   \<and> number_is_zero ''-0.000E+7'' \<and> number_is_zero ''1e-400'' \<and> number_is_zero ''2e-324''
   \<and> \<not> number_is_zero ''5e-324''
   \<and> \<not> number_is_zero ''10'' \<and> \<not> number_is_zero ''0.1'' \<and> \<not> number_is_zero ''-1E2''"
  by code_simp

lemma toBoolean_examples:
  "\<not> toBoolean JUndefined \<and> \<not> toBoolean JNull \<and> \<not> toBoolean (JNum ''0.0'') \<and> \<not> toBoolean (JStr [])
   \<and> toBoolean (JNum ''1'') \<and> toBoolean (JStr ''0'') \<and> toBoolean (JArr []) \<and> toBoolean (JObj [])"
  by code_simp

lemma posix_join_examples:
  "posix_join [''/home/u'', ''.pixi'', ''bin'', ''pixi''] = ''/home/u/.pixi/bin/pixi''
   \<and> posix_join [''/proj/'', ''pixi.toml''] = ''/proj/pixi.toml''
   \<and> posix_join [''.'', ''pixi.toml''] = ''pixi.toml''
   \<and> posix_join [''a'', ''..'', ''..'', ''b''] = ''../b''
   \<and> posix_join [''/a'', ''../..'', ''c''] = ''/c''
   \<and> posix_join [''a/'', ''b//'', ''./c/''] = ''a/b/c/''
   \<and> posix_join [[], []] = ''.''
   \<and> posix_join [''/'', ''..''] = ''/''
   \<and> posix_join [''./''] = ''./''"
  by code_simp

section \<open>The cached accessors\<close>

lemma getPixiInfo_miss:
  assumes "cache_lookup (now w) (infoCache (heap s h)) c = None"
  shows "fst (getPixiInfo w h c s) =
           (case exec w (info_call (heap s h)) of
              Inl e \<Rightarrow> Inr JUndefined
            | Inr out \<Rightarrow> JSON_parse out)"
    and "execLog (snd (getPixiInfo w h c s)) = execLog s @ [info_call (heap s h)]"
    and "errorLog (snd (getPixiInfo w h c s)) =
           errorLog s @ (case exec w (info_call (heap s h)) of Inl e \<Rightarrow> [e] | Inr out \<Rightarrow> [])"
    and "infoCache (heap (snd (getPixiInfo w h c s)) h) c =
           Some (now w + 1000, fst (getPixiInfo w h c s))"
  using assms
  by (simp_all add: getPixiInfo_def cached_def getPixiInfo_body_def cache_store_def Let_def
      split: sum.splits)



lemma getEnvListCached_miss:
  assumes "cache_lookup (now w) (envListCache (heap s h)) c = None"
      and "cache_lookup (now w) (infoCache (heap s h)) c = None"
  shows "fst (getEnvListCached w h c s) =
           (case exec w (info_call (heap s h)) of
              Inl e \<Rightarrow> Inr JUndefined
            | Inr out \<Rightarrow> (case JSON_parse out of Inl e \<Rightarrow> Inl e | Inr info \<Rightarrow> env_prefixes info))"
    and "execLog (snd (getEnvListCached w h c s)) = execLog s @ [info_call (heap s h)]"
    and "errorLog (snd (getEnvListCached w h c s)) =
           errorLog s @ (case exec w (info_call (heap s h)) of Inl e \<Rightarrow> [e] | Inr out \<Rightarrow> [])"
  using assms
  by (simp_all add: getEnvListCached_def getEnvListCached_body_def getPixiInfo_def cached_def
      getPixiInfo_body_def Let_def env_prefixes_nullish split: sum.splits)

lemma getEnvList_frame:
  "pixiPromise (snd (getEnvList w h s)) = pixiPromise s"
  "nextId (snd (getEnvList w h s)) = nextId s"
  "command (heap (snd (getEnvList w h s)) k) = command (heap s k)"
  "cwd (heap (snd (getEnvList w h s)) k) = cwd (heap s k)"
  by (simp_all add: getEnvList_def getEnvListCached_def getEnvListCached_body_def
      getPixiInfo_def cached_def getPixiInfo_body_def Let_def split: sum.splits option.splits)

lemma new_Pixi_fresh:
  assumes "new_Pixi c d s = (h, s1)"
  shows "h = nextId s" and "nextId s1 = Suc (nextId s)"
    and "command (heap s1 h) = c" and "cwd (heap s1 h) = d"
    and "cache_lookup t (envListCache (heap s1 h)) k = None"
    and "cache_lookup t (infoCache (heap s1 h)) k = None"
    and "execLog s1 = execLog s" and "pixiPromise s1 = pixiPromise s"
  using assms by (auto simp add: new_Pixi_def cache_lookup_def)

lemma probe_step:
  assumes n: "new_Pixi c d s = (h, s1)" and g: "getEnvList w h s1 = (r, s2)"
  shows "r = probe_outcome w c d"
    and "h = nextId s"
    and "nextId s2 = Suc (nextId s)"
    and "execLog s2 = execLog s @ [mk_call c d]"
    and "command (heap s2 h) = c" and "cwd (heap s2 h) = d"
    and "pixiPromise s2 = pixiPromise s"
proof -
  note f = new_Pixi_fresh[OF n]
  have m1: "cache_lookup (now w) (envListCache (heap s1 h)) (cwd (heap s1 h)) = None"
    by (rule f(5))
  have m2: "cache_lookup (now w) (infoCache (heap s1 h)) (cwd (heap s1 h)) = None"
    by (rule f(6))
  have call: "info_call (heap s1 h) = mk_call c d"
    by (simp add: info_call_def mk_call_def f(3,4))
  have "fst (getEnvList w h s1) = probe_outcome w c d"
    unfolding getEnvList_def using getEnvListCached_miss(1)[OF m1 m2]
    by (simp add: probe_outcome_def call)
  then show "r = probe_outcome w c d" using g by simp
  show "h = nextId s" by (rule f(1))
  have "s2 = snd (getEnvList w h s1)" using g by simp
  then show "nextId s2 = Suc (nextId s)" "command (heap s2 h) = c" "cwd (heap s2 h) = d"
    "pixiPromise s2 = pixiPromise s"
    by (simp_all add: getEnvList_frame f(2,3,4,8))
  have "execLog (snd (getEnvList w h s1)) = execLog s1 @ [mk_call c d]"
    unfolding getEnvList_def using getEnvListCached_miss(2)[OF m1 m2] by (simp add: call)
  then show "execLog s2 = execLog s @ [mk_call c d]" using g f(7) by simp
qed

section \<open>The probing loop\<close>

lemma probe_frame: "pixiPromise (snd (probe w d cs s)) = pixiPromise s"
proof (induction cs arbitrary: s)
  case Nil
  show ?case by simp
next
  case (Cons c cs)
  obtain h s1 where n: "new_Pixi c d s = (h, s1)" by (cases "new_Pixi c d s")
  obtain r s2 where g: "getEnvList w h s1 = (r, s2)" by (cases "getEnvList w h s1")
  have "pixiPromise s2 = pixiPromise s" using probe_step(7)[OF n g] .
  with Cons[of s2] n g show ?case
    by (simp split: sum.splits)
qed

lemma probe_first:
  assumes "\<forall>x\<in>set pre. probe_outcome w x d = Inr JUndefined"
      and "probe_outcome w c d = Inr v" and "v \<noteq> JUndefined"
  shows "fst (probe w d (pre @ c # post) s) = Inr (Some (nextId s + length pre))
       \<and> command (heap (snd (probe w d (pre @ c # post) s)) (nextId s + length pre)) = c
       \<and> cwd (heap (snd (probe w d (pre @ c # post) s)) (nextId s + length pre)) = d
       \<and> execLog (snd (probe w d (pre @ c # post) s)) =
           execLog s @ map (\<lambda>x. mk_call x d) (pre @ [c])"
  using assms(1)
proof (induction pre arbitrary: s)
  case Nil
  obtain h s1 where n: "new_Pixi c d s = (h, s1)" by (cases "new_Pixi c d s")
  obtain r s2 where g: "getEnvList w h s1 = (r, s2)" by (cases "getEnvList w h s1")
  note st = probe_step[OF n g]
  show ?case using st assms(2,3) n g by simp
next
  case (Cons x pre)
  obtain h s1 where n: "new_Pixi x d s = (h, s1)" by (cases "new_Pixi x d s")
  obtain r s2 where g: "getEnvList w h s1 = (r, s2)" by (cases "getEnvList w h s1")
  note st = probe_step[OF n g]
  have r: "r = Inr JUndefined" using st(1) Cons.prems by simp
  have rest: "\<forall>x\<in>set pre. probe_outcome w x d = Inr JUndefined" using Cons.prems by simp
  have step: "probe w d ((x # pre) @ c # post) s = probe w d (pre @ c # post) s2"
    using n g r by simp
  show ?case unfolding step using Cons.IH[OF rest, of s2] st(3,4) by simp
qed

lemma probe_rejects:
  assumes "\<forall>x\<in>set pre. probe_outcome w x d = Inr JUndefined"
      and "probe_outcome w c d = Inl e"
  shows "fst (probe w d (pre @ c # post) s) = Inl e
       \<and> execLog (snd (probe w d (pre @ c # post) s)) =
           execLog s @ map (\<lambda>x. mk_call x d) (pre @ [c])"
  using assms(1)
proof (induction pre arbitrary: s)
  case Nil
  obtain h s1 where n: "new_Pixi c d s = (h, s1)" by (cases "new_Pixi c d s")
  obtain r s2 where g: "getEnvList w h s1 = (r, s2)" by (cases "getEnvList w h s1")
  note st = probe_step[OF n g]
  show ?case using st assms(2) n g by simp
next
  case (Cons x pre)
  obtain h s1 where n: "new_Pixi x d s = (h, s1)" by (cases "new_Pixi x d s")
  obtain r s2 where g: "getEnvList w h s1 = (r, s2)" by (cases "getEnvList w h s1")
  note st = probe_step[OF n g]
  have r: "r = Inr JUndefined" using st(1) Cons.prems by simp
  have rest: "\<forall>x\<in>set pre. probe_outcome w x d = Inr JUndefined" using Cons.prems by simp
  have step: "probe w d ((x # pre) @ c # post) s = probe w d (pre @ c # post) s2"
    using n g r by simp
  show ?case unfolding step using Cons.IH[OF rest, of s2] st(4) by simp
qed

lemma probe_none:
  assumes "\<forall>x\<in>set cs. probe_outcome w x d = Inr JUndefined"
  shows "fst (probe w d cs s) = Inr None
       \<and> execLog (snd (probe w d cs s)) = execLog s @ map (\<lambda>x. mk_call x d) cs"
  using assms
proof (induction cs arbitrary: s)
  case Nil
  show ?case by simp
next
  case (Cons x cs)
  obtain h s1 where n: "new_Pixi x d s = (h, s1)" by (cases "new_Pixi x d s")
  obtain r s2 where g: "getEnvList w h s1 = (r, s2)" by (cases "getEnvList w h s1")
  note st = probe_step[OF n g]
  have r: "r = Inr JUndefined" using st(1) Cons.prems by simp
  have rest: "\<forall>x\<in>set cs. probe_outcome w x d = Inr JUndefined" using Cons.prems by simp
  have step: "probe w d (x # cs) s = probe w d cs s2"
    using n g r by simp
  show ?case unfolding step using Cons.IH[OF rest, of s2] st(4) by simp
qed

lemma probe_grows:
  "length (execLog s) + (if cs = [] then 0 else 1) \<le> length (execLog (snd (probe w d cs s)))"
proof (induction cs arbitrary: s)
  case Nil
  show ?case by simp
next
  case (Cons x cs)
  obtain h s1 where n: "new_Pixi x d s = (h, s1)" by (cases "new_Pixi x d s")
  obtain r s2 where g: "getEnvList w h s1 = (r, s2)" by (cases "getEnvList w h s1")
  note st = probe_step[OF n g]
  have "length (execLog s2) \<le> length (execLog (snd (probe w d cs s2)))"
    using Cons.IH[of s2] by (simp split: if_splits)
  then show ?case using n g st(4) by (simp split: sum.splits)
qed

lemma locate_spawns: "length (execLog s) < length (execLog (snd (locate w d s)))"
  using probe_grows[of "s\<lparr>errorLog := errorLog s @ setting_errors w\<rparr>" "getCandidates w" w d]
  by (simp add: locate_def getCandidates_def)

lemma locate_frame: "pixiPromise (snd (locate w d s)) = pixiPromise s"
  by (simp add: locate_def probe_frame)

section \<open>The registry\<close>

lemma getPixi_resolved:
  assumes "pixiPromise s d = Some r" and "\<not> isTestExecution w"
  shows "getPixi w d s = (r, s)"
  using assms by (simp add: getPixi_def)

lemma getPixi_fresh:
  assumes "pixiPromise s d = None \<or> isTestExecution w"
  shows "fst (getPixi w d s) = fst (locate w d s)"
    and "execLog (snd (getPixi w d s)) = execLog (snd (locate w d s))"
    and "pixiPromise (snd (getPixi w d s)) d = Some (fst (locate w d s))"
  using assms by (auto simp add: getPixi_def split_def Let_def)

lemma getPixi_memo: "pixiPromise (snd (getPixi w d s)) d = Some (fst (getPixi w d s))"
proof (cases "pixiPromise s d = None \<or> isTestExecution w")
  case True
  then show ?thesis using getPixi_fresh[OF True] by simp
next
  case False
  then obtain r where "pixiPromise s d = Some r" by auto
  with False show ?thesis using getPixi_resolved[of s d r w] by simp
qed

lemma getPixi_others:
  assumes "k \<noteq> d"
  shows "pixiPromise (snd (getPixi w d s)) k = pixiPromise s k"
  using assms locate_frame[of w d s]
  by (auto simp add: getPixi_def split_def Let_def)

section \<open>The enumeration\<close>

lemma chain_generator:
  "chain (map (generator w) ds) =
     (concat (map (resolved w) ds), concat (map (resolve_errors w) ds))"
  by (induction ds)
     (auto simp add: generator_def resolved_def resolve_errors_def split: sum.splits option.splits)

lemma getVirtualEnvDirs_list:
  assumes "fst (getPixi w root s) = Inr (Some h)"
      and "fst (getEnvList w h (snd (getPixi w root s))) = Inr (JArr ps)"
  shows "fst (getVirtualEnvDirs w root s) = Inr (filter (pathExists w) ps)"
  using assms
  by (simp add: getVirtualEnvDirs_def asyncFilter_def split_def Let_def)

lemma doIterEnvs_dirs:
  assumes "fst (getVirtualEnvDirs w root s) = Inr dirs"
  shows "fst (doIterEnvs w root s) = (fst (chain (map (generator w) dirs)), None)"
    and "errorLog (snd (doIterEnvs w root s)) =
           errorLog (snd (getVirtualEnvDirs w root s)) @ snd (chain (map (generator w) dirs))"
  using assms by (simp_all add: doIterEnvs_def split_def Let_def)

lemma envPath_resolved:
  "map envPath (concat (map (resolved w) ds)) =
     filter (\<lambda>p. \<exists>f. getCondaInterpreterPath w p = Inr (Some f)) ds"
  by (induction ds) (auto simp add: resolved_def split: sum.splits option.splits)

lemma resolved_records:
  "r \<in> set (concat (map (resolved w) ds)) \<Longrightarrow>
     kind r = Pixi \<and> getCondaInterpreterPath w (envPath r) = Inr (Some (executablePath r))"
  by (auto simp add: resolved_def split: sum.splits option.splits)

section \<open>What locate returns\<close>

lemma getCandidates_explicit:
  "getCandidates w =
     (case getPythonSetting w ''pixiToolPath'' of
        Inr (Some p) \<Rightarrow> if p = [] \<or> p = ''pixi'' then [] else [p]
      | _ \<Rightarrow> [])
     @ [''pixi'']
     @ (case getUserHomeDir w of
          Some home \<Rightarrow>
            if home \<noteq> [] \<and> pathExistsSync w (join (path w) [home, ''.pixi'', ''bin'', ''pixi''])
            then [join (path w) [home, ''.pixi'', ''bin'', ''pixi'']] else []
        | None \<Rightarrow> [])"
  by (simp add: getCandidates_def setting_candidates_def home_candidates_def Let_def
      split: sum.splits option.splits)

lemma locate_first:
  assumes "getCandidates w = pre @ c # post"
      and "\<forall>x\<in>set pre. probe_outcome w x d = Inr JUndefined"
      and "probe_outcome w c d = Inr v" and "v \<noteq> JUndefined"
  shows "fst (locate w d s) = Inr (Some (nextId s + length pre))
       \<and> command (heap (snd (locate w d s)) (nextId s + length pre)) = c
       \<and> cwd (heap (snd (locate w d s)) (nextId s + length pre)) = d
       \<and> execLog (snd (locate w d s)) = execLog s @ map (\<lambda>x. mk_call x d) (pre @ [c])"
  using probe_first[OF assms(2,3,4), of post "s\<lparr>errorLog := errorLog s @ setting_errors w\<rparr>"]
  by (simp add: locate_def assms(1))

lemma locate_rejects:
  assumes "getCandidates w = pre @ c # post"
      and "\<forall>x\<in>set pre. probe_outcome w x d = Inr JUndefined"
      and "probe_outcome w c d = Inl e"
  shows "fst (locate w d s) = Inl e
       \<and> execLog (snd (locate w d s)) = execLog s @ map (\<lambda>x. mk_call x d) (pre @ [c])"
  using probe_rejects[OF assms(2,3), of post "s\<lparr>errorLog := errorLog s @ setting_errors w\<rparr>"]
  by (simp add: locate_def assms(1))

lemma locate_none:
  assumes "\<forall>x\<in>set (getCandidates w). probe_outcome w x d = Inr JUndefined"
  shows "fst (locate w d s) = Inr None
       \<and> execLog (snd (locate w d s)) = execLog s @ map (\<lambda>x. mk_call x d) (getCandidates w)"
  using probe_none[OF assms, of "s\<lparr>errorLog := errorLog s @ setting_errors w\<rparr>"]
  by (simp add: locate_def)

lemma locate_override:
  assumes "getPythonSetting w ''pixiToolPath'' = Inr (Some p)" and "p \<noteq> []" and "p \<noteq> ''pixi''"
      and "probe_outcome w p d = Inr v" and "v \<noteq> JUndefined"
  shows "fst (locate w d s) = Inr (Some (nextId s))
       \<and> command (heap (snd (locate w d s)) (nextId s)) = p
       \<and> cwd (heap (snd (locate w d s)) (nextId s)) = d
       \<and> execLog (snd (locate w d s)) = execLog s @ [mk_call p d]"
proof -
  have c: "getCandidates w = [] @ p # ([''pixi''] @ home_candidates w)"
    using assms(1,2,3) by (simp add: getCandidates_def setting_candidates_def)
  have e: "\<forall>x\<in>set []. probe_outcome w x d = Inr JUndefined" by simp
  show ?thesis using locate_first[OF c e assms(4,5), of s] by simp
qed

lemma probe_outcome_fresh:
  "fst (getEnvList w (fst (new_Pixi c d s)) (snd (new_Pixi c d s))) = probe_outcome w c d"
  using probe_step(1)[of c d s "fst (new_Pixi c d s)" "snd (new_Pixi c d s)" w
      "fst (getEnvList w (fst (new_Pixi c d s)) (snd (new_Pixi c d s)))"
      "snd (getEnvList w (fst (new_Pixi c d s)) (snd (new_Pixi c d s)))"]
  by simp

lemma probe_bound:
  "fst (probe w d cs s) = Inr (Some h) \<Longrightarrow> cwd (heap (snd (probe w d cs s)) h) = d"
proof (induction cs arbitrary: s)
  case Nil
  then show ?case by simp
next
  case (Cons x cs)
  obtain h' s1 where n: "new_Pixi x d s = (h', s1)" by (cases "new_Pixi x d s")
  obtain r s2 where g: "getEnvList w h' s1 = (r, s2)" by (cases "getEnvList w h' s1")
  note st = probe_step[OF n g]
  show ?case
  proof (cases r)
    case (Inl e)
    then show ?thesis using Cons.prems n g by simp
  next
    case (Inr v)
    show ?thesis
    proof (cases "v = JUndefined")
      case True
      then have step: "probe w d (x # cs) s = probe w d cs s2" using n g Inr by simp
      show ?thesis using Cons.IH[of s2] Cons.prems unfolding step by simp
    next
      case False
      then have "probe w d (x # cs) s = (Inr (Some h'), s2)" using n g Inr by simp
      then show ?thesis using Cons.prems st(6) by simp
    qed
  qed
qed

lemma locate_bound:
  "fst (locate w d s) = Inr (Some h) \<Longrightarrow> cwd (heap (snd (locate w d s)) h) = d"
  unfolding locate_def by (rule probe_bound)

section \<open>Handles of the registry are bound to their directory\<close>







section \<open>Every call of the tool is made in the directory of the handle\<close>





section \<open>The info caches hold the answers of the tool\<close>













section \<open>What getPixiEnvironmentFromInterpreter returns\<close>








section \<open>Facts for evaluating the concrete inputs\<close>

lemmas world_defs = world_with_def mk_world_def exec_reject_def exec_stdout_def exec_only_def
  exec_in_dir_def exec_table_def
  setting_is_def everything_def all_but_def bin_python_def bin_python_except_def posix_path_def

lemmas state_defs = proj_state_def s0_def new_Pixi_def

lemmas accessor_defs = getEnvList_def getEnvListCached_def getEnvListCached_body_def
  getPixiInfo_def cached_def getPixiInfo_body_def cache_lookup_def cache_store_def info_call_def
  Let_def

lemma proj_state_fresh:
  "cache_lookup t (infoCache (heap proj_state 0)) k = None"
  "cache_lookup t (envListCache (heap proj_state 0)) k = None"
  "command (heap proj_state 0) = ''pixi''"
  "cwd (heap proj_state 0) = ''/proj''"
  "execLog proj_state = []"
  "errorLog proj_state = []"
  by (simp_all add: state_defs cache_lookup_def)

section \<open>The accessors of a handle\<close>

text \<open>
  Claim C1, as amended. The claim says that \<open>getPixiInfo\<close> and
  \<open>getEnvList\<close>/\<open>getEnvListCached\<close> return \<open>undefined\<close>, and never throw, also when the
  standard output does not parse as the expected schema. The code has no schema check, and
  \<open>JSON.parse\<close> runs outside any handler (see the counterexample below). What holds: in a
  call that runs the tool (nothing live is cached under the key), a rejected \<open>exec\<close> (the
  process could not be spawned, or ended with an error status) makes \<open>getPixiInfo\<close> and
  \<open>getEnvListCached\<close> resolve to \<open>undefined\<close>, the error going to the error log and
  nowhere else; and when the standard output is well-formed JSON, \<open>getPixiInfo\<close> resolves
  to the parsed value as it is, whatever keys it has.
\<close>

theorem C1_exec_failure_gives_undefined:
  "cache_lookup (now w) (infoCache (heap s h)) c = None \<Longrightarrow>
     (exec w (info_call (heap s h)) = Inl e \<longrightarrow>
         fst (getPixiInfo w h c s) = Inr JUndefined
       \<and> errorLog (snd (getPixiInfo w h c s)) = errorLog s @ [e]
       \<and> (cache_lookup (now w) (envListCache (heap s h)) c = None \<longrightarrow>
            fst (getEnvListCached w h c s) = Inr JUndefined
          \<and> errorLog (snd (getEnvListCached w h c s)) = errorLog s @ [e]))
   \<and> (\<forall>out v. exec w (info_call (heap s h)) = Inr out \<longrightarrow> JSON_parse out = Inr v \<longrightarrow>
         fst (getPixiInfo w h c s) = Inr v)"
  by (simp add: getPixiInfo_miss getEnvListCached_miss)

text \<open>Witness for C1: a new handle for \<open>/proj\<close>; a tool that cannot be spawned, and a
  tool that prints the empty object.\<close>

theorem C1_witness:
  "fst (getPixiInfo (world_with exec_reject) 0 ''/proj'' proj_state) = Inr JUndefined
   \<and> errorLog (snd (getPixiInfo (world_with exec_reject) 0 ''/proj'' proj_state)) =
       [Failure ''spawn ENOENT'']
   \<and> fst (getEnvList (world_with exec_reject) 0 proj_state) = Inr JUndefined
   \<and> fst (getPixiInfo (world_with (exec_stdout ''{}'')) 0 ''/proj'' proj_state) = Inr (JObj [])"
proof -
  have miss: "cache_lookup (now w) (infoCache (heap proj_state 0)) ''/proj'' = None" for w
    by (rule proj_state_fresh)
  have miss': "cache_lookup (now w) (envListCache (heap proj_state 0)) ''/proj'' = None" for w
    by (rule proj_state_fresh)
  have rej: "exec (world_with exec_reject) (info_call (heap proj_state 0)) =
      Inl (Failure ''spawn ENOENT'')"
    by (simp add: world_defs)
  have out: "exec (world_with (exec_stdout ''{}'')) (info_call (heap proj_state 0)) = Inr ''{}''"
    by (simp add: world_defs)
  from C1_exec_failure_gives_undefined[OF miss, of "world_with exec_reject" "Failure ''spawn ENOENT''"]
       C1_exec_failure_gives_undefined[OF miss, of "world_with (exec_stdout ''{}'')"]
       rej out JSON_parse_empty_object
  show ?thesis by (simp add: getEnvList_def miss' proj_state_fresh)
qed

text \<open>
  Counterexample to C1 as stated. On a new handle, standard output that is not JSON makes
  \<open>getPixiInfo\<close> reject with the SyntaxError of \<open>JSON.parse\<close>; the output \<open>{}\<close>, which
  lacks \<open>environments_info\<close> and every other required key, makes \<open>getEnvList\<close> reject
  with a TypeError, while \<open>getPixiInfo\<close> returns the object, not \<open>undefined\<close>.
\<close>

theorem C1_counterexample:
  "fst (getPixiInfo (world_with (exec_stdout ''not json'')) 0 ''/proj'' proj_state) = Inl SyntaxError
   \<and> fst (getEnvList (world_with (exec_stdout ''{}'')) 0 proj_state) = Inl TypeError
   \<and> fst (getPixiInfo (world_with (exec_stdout ''{}'')) 0 ''/proj'' proj_state) = Inr (JObj [])"
  by (simp add: accessor_defs world_defs state_defs JSON_parse_not_json JSON_parse_empty_object
      env_prefixes_def)

text \<open>
  Claim C9. When the tool prints the literal document of the spec, the info accessor
  returns the parsed document and the list of environment prefixes is exactly the
  one-element list \<open>["/proj/.pixi/envs/default"]\<close>.
\<close>

theorem C9_literal_document:
  "cache_lookup (now w) (infoCache (heap s h)) c = None \<Longrightarrow>
   cache_lookup (now w) (envListCache (heap s h)) c = None \<Longrightarrow>
   exec w (info_call (heap s h)) = Inr tool_info_literal \<Longrightarrow>
     fst (getPixiInfo w h c s) = Inr tool_info_document
   \<and> fst (getEnvListCached w h c s) = Inr (JArr [JStr ''/proj/.pixi/envs/default''])"
  by (simp add: getPixiInfo_miss getEnvListCached_miss JSON_parse_tool_info env_prefixes_tool_info)

text \<open>Witness for C9: a new handle for \<open>/proj\<close> and a tool that prints the literal.\<close>

theorem C9_witness:
  "fst (getPixiInfo (world_with (exec_stdout tool_info_literal)) 0 ''/proj'' proj_state) =
     Inr tool_info_document
   \<and> fst (getEnvList (world_with (exec_stdout tool_info_literal)) 0 proj_state) =
     Inr (JArr [JStr ''/proj/.pixi/envs/default''])"
proof -
  have miss: "cache_lookup (now w) (infoCache (heap proj_state 0)) ''/proj'' = None" for w
    by (rule proj_state_fresh)
  have miss': "cache_lookup (now w) (envListCache (heap proj_state 0)) ''/proj'' = None" for w
    by (rule proj_state_fresh)
  have out: "exec (world_with (exec_stdout tool_info_literal)) (info_call (heap proj_state 0)) =
      Inr tool_info_literal"
    by (simp add: world_defs)
  from C9_literal_document[OF miss miss' out] show ?thesis
    by (simp add: getEnvList_def proj_state_fresh)
qed

section \<open>The arguments for running Python\<close>

text \<open>
  Claim C2, as amended. The claim puts the interpreter name and the bootstrap script last,
  next to each other. In the code the isolation flag \<open>-I\<close> is pushed after \<open>python\<close>, so
  it stands between the two when it is requested (see the counterexample below). What holds:
  the list is the command, \<open>run\<close>, \<open>--manifest-path\<close> and the manifest path; then
  \<open>--environment\<close> and the name, exactly when a name is given and is not \<open>default\<close>; then
  \<open>python\<close>; then \<open>-I\<close>, exactly when isolation is requested; and the script path last.
\<close>

theorem C2_run_arguments:
  "getRunPythonArgs script cmd m n b =
     [cmd, ''run'', ''--manifest-path'', m]
     @ (case n of None \<Rightarrow> [] | Some e \<Rightarrow> if e = ''default'' then [] else [''--environment'', e])
     @ [''python'']
     @ (if b then [''-I''] else [])
     @ [script]"
  by (simp add: getRunPythonArgs_def isNonDefaultPixiEnvironmentName_def split: option.splits)

text \<open>Witness for C2: the three examples of the spec.\<close>

theorem C2_witness:
  "getRunPythonArgs ''out.py'' ''pixi'' ''pixi.toml'' (Some ''default'') False =
     [''pixi'', ''run'', ''--manifest-path'', ''pixi.toml'', ''python'', ''out.py'']
   \<and> getRunPythonArgs ''out.py'' ''pixi'' ''pixi.toml'' (Some ''py311'') False =
     [''pixi'', ''run'', ''--manifest-path'', ''pixi.toml'', ''--environment'', ''py311'',
      ''python'', ''out.py'']
   \<and> getRunPythonArgs ''out.py'' ''pixi'' ''pixi.toml'' None True =
     [''pixi'', ''run'', ''--manifest-path'', ''pixi.toml'', ''python'', ''-I'', ''out.py'']"
  using C2_run_arguments[of "''out.py''" "''pixi''" "''pixi.toml''" "Some ''default''" False]
        C2_run_arguments[of "''out.py''" "''pixi''" "''pixi.toml''" "Some ''py311''" False]
        C2_run_arguments[of "''out.py''" "''pixi''" "''pixi.toml''" None True]
  by simp

text \<open>Counterexample to C2 as stated: with isolation requested the list ends with
  \<open>python\<close>, \<open>-I\<close> and the script, so its last two elements are not the interpreter name
  and the script.\<close>

theorem C2_counterexample:
  "drop 4 (getRunPythonArgs ''out.py'' ''pixi'' ''pixi.toml'' None True) =
     [''python'', ''-I'', ''out.py'']
   \<and> drop 5 (getRunPythonArgs ''out.py'' ''pixi'' ''pixi.toml'' None True) \<noteq>
     [''python'', ''out.py'']"
  by (simp add: getRunPythonArgs_def isNonDefaultPixiEnvironmentName_def)

section \<open>The derived directories\<close>

text \<open>
  Claim C6. For every interpreter path, \<open>getCondaEnvironmentFromInterpreterPath\<close> returns
  its parent directory on Windows and the parent of its parent on every other operating
  system.
\<close>

theorem C6_environment_dir:
  "getCondaEnvironmentFromInterpreterPath pm os P =
     (if os = Windows then dirname pm P else dirname pm (dirname pm P))"
  by (simp add: getCondaEnvironmentFromInterpreterPath_def)

text \<open>Witness for C6: the layout of the source comment, on Linux.\<close>

theorem C6_witness:
  "getCondaEnvironmentFromInterpreterPath posix_path Linux ''/proj/.pixi/envs/default/bin/python''
     = ''/proj/.pixi/envs/default''"
  using C6_environment_dir[of posix_path Linux "''/proj/.pixi/envs/default/bin/python''"]
  by (simp add: posix_path_def posix_dirname_def)

text \<open>
  Claim C7. \<open>getPixiProjectFolderFromInterpreter\<close> is a function of the path string and
  the operating system alone (it takes no state and no file system), it has a value for
  every string, and that value is three directory levels above the environment directory.
\<close>

theorem C7_project_dir:
  "getPixiProjectFolderFromInterpreter pm os P =
     dirname pm (dirname pm (dirname pm (getCondaEnvironmentFromInterpreterPath pm os P)))"
  by (simp add: getPixiProjectFolderFromInterpreter_def)

text \<open>Witness for C7: the layout of the source comment, a relative path and the empty
  path.\<close>

theorem C7_witness:
  "getPixiProjectFolderFromInterpreter posix_path Linux ''/proj/.pixi/envs/default/bin/python''
     = ''/proj''
   \<and> getPixiProjectFolderFromInterpreter posix_path Linux ''python'' = ''.''
   \<and> getPixiProjectFolderFromInterpreter posix_path Linux [] = ''.''"
  using C7_project_dir[of posix_path Linux "''/proj/.pixi/envs/default/bin/python''"]
        C7_project_dir[of posix_path Linux "''python''"]
        C7_project_dir[of posix_path Linux "[]"]
  by (simp add: getCondaEnvironmentFromInterpreterPath_def posix_path_def posix_dirname_def)

section \<open>Locating the tool\<close>

lemmas locate_defs = getPixi_def locate_def getCandidates_def setting_candidates_def
  setting_errors_def home_candidates_def

text \<open>
  What \<open>locate\<close> does. It probes, in this order, the configured path (only when the setting
  could be read, is set, is not empty and is not \<open>pixi\<close>), the bare command \<open>pixi\<close>, and
  the path under the home directory (only when it exists on disk). Probing a candidate is
  \<open>getEnvList\<close> on a new handle bound to the candidate and the working directory; the
  caches of a new handle are empty, so the tool is run, and the answer is
  \<open>probe_outcome\<close>. When the candidates before \<open>c\<close> answer \<open>undefined\<close> and \<open>c\<close>
  answers something else (an empty list included), \<open>locate\<close> returns the handle created
  for \<open>c\<close> and has run exactly those candidates, so none after \<open>c\<close>; when every candidate
  answers \<open>undefined\<close> it returns none; when instead the call for \<open>c\<close> is rejected,
  \<open>locate\<close> is rejected with the same error; and when the configured path answers, it
  is the only command that was run.
\<close>

lemma locate_characterisation:
  "getCandidates w =
     (case getPythonSetting w ''pixiToolPath'' of
        Inr (Some p) \<Rightarrow> if p = [] \<or> p = ''pixi'' then [] else [p]
      | _ \<Rightarrow> [])
     @ [''pixi'']
     @ (case getUserHomeDir w of
          Some home \<Rightarrow>
            if home \<noteq> [] \<and> pathExistsSync w (join (path w) [home, ''.pixi'', ''bin'', ''pixi''])
            then [join (path w) [home, ''.pixi'', ''bin'', ''pixi'']] else []
        | None \<Rightarrow> [])
   \<and> (\<forall>c. fst (getEnvList w (fst (new_Pixi c d s)) (snd (new_Pixi c d s))) = probe_outcome w c d)
   \<and> (\<forall>pre c post v.
        getCandidates w = pre @ c # post \<longrightarrow>
        (\<forall>x\<in>set pre. probe_outcome w x d = Inr JUndefined) \<longrightarrow>
        probe_outcome w c d = Inr v \<longrightarrow> v \<noteq> JUndefined \<longrightarrow>
          fst (locate w d s) = Inr (Some (nextId s + length pre))
        \<and> command (heap (snd (locate w d s)) (nextId s + length pre)) = c
        \<and> cwd (heap (snd (locate w d s)) (nextId s + length pre)) = d
        \<and> execLog (snd (locate w d s)) = execLog s @ map (\<lambda>x. mk_call x d) (pre @ [c]))
   \<and> ((\<forall>x\<in>set (getCandidates w). probe_outcome w x d = Inr JUndefined) \<longrightarrow>
          fst (locate w d s) = Inr None
        \<and> execLog (snd (locate w d s)) = execLog s @ map (\<lambda>x. mk_call x d) (getCandidates w))
   \<and> (\<forall>pre c post e.
        getCandidates w = pre @ c # post \<longrightarrow>
        (\<forall>x\<in>set pre. probe_outcome w x d = Inr JUndefined) \<longrightarrow>
        probe_outcome w c d = Inl e \<longrightarrow>
          fst (locate w d s) = Inl e
        \<and> execLog (snd (locate w d s)) = execLog s @ map (\<lambda>x. mk_call x d) (pre @ [c]))
   \<and> (\<forall>p v.
        getPythonSetting w ''pixiToolPath'' = Inr (Some p) \<longrightarrow> p \<noteq> [] \<longrightarrow> p \<noteq> ''pixi'' \<longrightarrow>
        probe_outcome w p d = Inr v \<longrightarrow> v \<noteq> JUndefined \<longrightarrow>
          fst (locate w d s) = Inr (Some (nextId s))
        \<and> command (heap (snd (locate w d s)) (nextId s)) = p
        \<and> cwd (heap (snd (locate w d s)) (nextId s)) = d
        \<and> execLog (snd (locate w d s)) = execLog s @ [mk_call p d])"
proof (intro conjI allI impI)
  show "getCandidates w =
     (case getPythonSetting w ''pixiToolPath'' of
        Inr (Some p) \<Rightarrow> if p = [] \<or> p = ''pixi'' then [] else [p]
      | _ \<Rightarrow> [])
     @ [''pixi'']
     @ (case getUserHomeDir w of
          Some home \<Rightarrow>
            if home \<noteq> [] \<and> pathExistsSync w (join (path w) [home, ''.pixi'', ''bin'', ''pixi''])
            then [join (path w) [home, ''.pixi'', ''bin'', ''pixi'']] else []
        | None \<Rightarrow> [])"
    by (rule getCandidates_explicit)
next
  fix c
  show "fst (getEnvList w (fst (new_Pixi c d s)) (snd (new_Pixi c d s))) = probe_outcome w c d"
    by (rule probe_outcome_fresh)
next
  fix pre c post v
  assume a: "getCandidates w = pre @ c # post"
    "\<forall>x\<in>set pre. probe_outcome w x d = Inr JUndefined"
    "probe_outcome w c d = Inr v" "v \<noteq> JUndefined"
  note r = locate_first[OF a, of s]
  show "fst (locate w d s) = Inr (Some (nextId s + length pre))" using r by simp
  show "command (heap (snd (locate w d s)) (nextId s + length pre)) = c" using r by simp
  show "cwd (heap (snd (locate w d s)) (nextId s + length pre)) = d" using r by simp
  show "execLog (snd (locate w d s)) = execLog s @ map (\<lambda>x. mk_call x d) (pre @ [c])"
    using r by simp
next
  assume a: "\<forall>x\<in>set (getCandidates w). probe_outcome w x d = Inr JUndefined"
  note r = locate_none[OF a, of s]
  show "fst (locate w d s) = Inr None" using r by simp
  show "execLog (snd (locate w d s)) = execLog s @ map (\<lambda>x. mk_call x d) (getCandidates w)"
    using r by simp
next
  fix pre c post e
  assume a: "getCandidates w = pre @ c # post"
    "\<forall>x\<in>set pre. probe_outcome w x d = Inr JUndefined"
    "probe_outcome w c d = Inl e"
  note r = locate_rejects[OF a, of s]
  show "fst (locate w d s) = Inl e" using r by simp
  show "execLog (snd (locate w d s)) = execLog s @ map (\<lambda>x. mk_call x d) (pre @ [c])"
    using r by simp
next
  fix p v
  assume a: "getPythonSetting w ''pixiToolPath'' = Inr (Some p)" "p \<noteq> []" "p \<noteq> ''pixi''"
    "probe_outcome w p d = Inr v" "v \<noteq> JUndefined"
  note r = locate_override[OF a, of s]
  show "fst (locate w d s) = Inr (Some (nextId s))" using r by simp
  show "command (heap (snd (locate w d s)) (nextId s)) = p" using r by simp
  show "cwd (heap (snd (locate w d s)) (nextId s)) = d" using r by simp
  show "execLog (snd (locate w d s)) = execLog s @ [mk_call p d]" using r by simp
qed

text \<open>
  Two runs of \<open>locate\<close>. The setting names \<open>/opt/pixi/bin/pixi\<close>. In the first world only that
  command runs, and it reports no environment: the handle is bound to it and nothing else
  was run. In the second world only \<open>pixi\<close> runs: the configured path is tried first,
  then \<open>pixi\<close>, whose handle is returned.
\<close>

lemma locate_characterisation_examples:
  "fst (locate (mk_world (exec_only ''/opt/pixi/bin/pixi'' no_envs_literal)
          (setting_is ''/opt/pixi/bin/pixi'') everything bin_python) ''/proj'' s0) = Inr (Some 0)
   \<and> command (heap (snd (locate (mk_world (exec_only ''/opt/pixi/bin/pixi'' no_envs_literal)
          (setting_is ''/opt/pixi/bin/pixi'') everything bin_python) ''/proj'' s0)) 0)
       = ''/opt/pixi/bin/pixi''
   \<and> map call_file (execLog (snd (locate (mk_world (exec_only ''/opt/pixi/bin/pixi'' no_envs_literal)
          (setting_is ''/opt/pixi/bin/pixi'') everything bin_python) ''/proj'' s0)))
       = [''/opt/pixi/bin/pixi'']
   \<and> fst (locate (mk_world (exec_only ''pixi'' no_envs_literal)
          (setting_is ''/opt/pixi/bin/pixi'') everything bin_python) ''/proj'' s0) = Inr (Some 1)
   \<and> map call_file (execLog (snd (locate (mk_world (exec_only ''pixi'' no_envs_literal)
          (setting_is ''/opt/pixi/bin/pixi'') everything bin_python) ''/proj'' s0)))
       = [''/opt/pixi/bin/pixi'', ''pixi'']"
proof -
  let ?w = "mk_world (exec_only ''/opt/pixi/bin/pixi'' no_envs_literal)
          (setting_is ''/opt/pixi/bin/pixi'') everything bin_python"
  let ?w' = "mk_world (exec_only ''pixi'' no_envs_literal)
          (setting_is ''/opt/pixi/bin/pixi'') everything bin_python"
  have set: "getPythonSetting ?w ''pixiToolPath'' = Inr (Some ''/opt/pixi/bin/pixi'')"
    by (simp add: world_defs)
  have po: "probe_outcome ?w ''/opt/pixi/bin/pixi'' ''/proj'' = Inr (JArr [])"
    by (simp add: probe_outcome_def world_defs mk_call_def JSON_parse_no_envs env_prefixes_def)
  have c': "getCandidates ?w' = [''/opt/pixi/bin/pixi''] @ ''pixi'' # []"
    by (simp add: getCandidates_def setting_candidates_def home_candidates_def world_defs)
  have pre': "\<forall>x\<in>set [''/opt/pixi/bin/pixi'']. probe_outcome ?w' x ''/proj'' = Inr JUndefined"
    by (simp add: probe_outcome_def world_defs mk_call_def)
  have po': "probe_outcome ?w' ''pixi'' ''/proj'' = Inr (JArr [])"
    by (simp add: probe_outcome_def world_defs mk_call_def JSON_parse_no_envs env_prefixes_def)
  have n: "nextId s0 = 0" "execLog s0 = []" by (simp_all add: s0_def)
  note t = locate_characterisation[of ?w "''/proj''" s0]
  note t5 = t[THEN conjunct2, THEN conjunct2, THEN conjunct2, THEN conjunct2, THEN conjunct2,
      rule_format,
      where p = "''/opt/pixi/bin/pixi''" and v = "JArr []"]
  from t5 set po
  have 1: "fst (locate ?w ''/proj'' s0) = Inr (Some 0)
      \<and> command (heap (snd (locate ?w ''/proj'' s0)) 0) = ''/opt/pixi/bin/pixi''
      \<and> map call_file (execLog (snd (locate ?w ''/proj'' s0))) = [''/opt/pixi/bin/pixi'']"
    by (simp add: n mk_call_def)
  note t' = locate_characterisation[of ?w' "''/proj''" s0]
  note t3 = t'[THEN conjunct2, THEN conjunct2, THEN conjunct1, rule_format,
      where pre = "[''/opt/pixi/bin/pixi'']" and c = "''pixi''" and post = "[]" and v = "JArr []"]
  from t3 c' pre' po'
  have 2: "fst (locate ?w' ''/proj'' s0) = Inr (Some 1)
      \<and> map call_file (execLog (snd (locate ?w' ''/proj'' s0))) = [''/opt/pixi/bin/pixi'', ''pixi'']"
    by (simp add: n mk_call_def)
  from 1 2 show ?thesis by simp
qed

text \<open>
  Claim C3, a defect of the code. The claim has \<open>locate\<close> return a handle bound to the
  first candidate whose probe returns a non-absent result. By the characterisation above
  this is what \<open>locate\<close> does as long as the probe of every candidate before that one
  returns. But a probe can also throw: \<open>getPixiInfo\<close> calls \<open>JSON.parse\<close> outside any
  handler, against the doc comment of \<open>getEnvList\<close>, which says \<open>Swallows errors if
  any\<close>, and the loop of \<open>locate\<close> has no handler either. Below, the setting names
  \<open>/opt/pixi/bin/pixi\<close>, a program that runs and prints \<open>not json\<close>, while \<open>pixi\<close> on
  the search path works and reports no environment. The candidates are the configured
  path and \<open>pixi\<close>; probing the first throws a SyntaxError, probing \<open>pixi\<close> returns the
  empty list; and \<open>locate\<close>, hence \<open>getPixi\<close>, is rejected with the SyntaxError after
  running the configured path only, where the claim has it return the handle bound to
  \<open>pixi\<close>.
\<close>

theorem C3_unparseable_answer_ends_locate:
  "getCandidates (mk_world (exec_table [(''/opt/pixi/bin/pixi'', ''not json''), (''pixi'', no_envs_literal)])
        (setting_is ''/opt/pixi/bin/pixi'') everything bin_python) = [''/opt/pixi/bin/pixi'', ''pixi'']
   \<and> fst (getEnvList (mk_world (exec_table [(''/opt/pixi/bin/pixi'', ''not json''), (''pixi'', no_envs_literal)])
        (setting_is ''/opt/pixi/bin/pixi'') everything bin_python) 0
        (snd (new_Pixi ''/opt/pixi/bin/pixi'' ''/proj'' s0))) = Inl SyntaxError
   \<and> fst (getEnvList (mk_world (exec_table [(''/opt/pixi/bin/pixi'', ''not json''), (''pixi'', no_envs_literal)])
        (setting_is ''/opt/pixi/bin/pixi'') everything bin_python) 0
        (snd (new_Pixi ''pixi'' ''/proj'' s0))) = Inr (JArr [])
   \<and> fst (locate (mk_world (exec_table [(''/opt/pixi/bin/pixi'', ''not json''), (''pixi'', no_envs_literal)])
        (setting_is ''/opt/pixi/bin/pixi'') everything bin_python) ''/proj'' s0) = Inl SyntaxError
   \<and> map call_file (execLog (snd (locate
        (mk_world (exec_table [(''/opt/pixi/bin/pixi'', ''not json''), (''pixi'', no_envs_literal)])
        (setting_is ''/opt/pixi/bin/pixi'') everything bin_python) ''/proj'' s0)))
       = [''/opt/pixi/bin/pixi'']
   \<and> fst (getPixi (mk_world (exec_table [(''/opt/pixi/bin/pixi'', ''not json''), (''pixi'', no_envs_literal)])
        (setting_is ''/opt/pixi/bin/pixi'') everything bin_python) ''/proj'' s0) = Inl SyntaxError"
  by (simp add: locate_defs accessor_defs world_defs exec_table_def s0_def new_Pixi_def
      JSON_parse_not_json JSON_parse_no_envs env_prefixes_def)


section \<open>The registry of handles\<close>

text \<open>
  Claim C5. Once \<open>getPixi\<close> has been called for a working directory, a later call
  outside test execution returns the same outcome and leaves the state as it is, so it
  runs no process; this holds for every outcome, none found included. A call for a
  directory without an entry, and every call in test execution, runs \<open>locate\<close> and
  stores its outcome. A call never removes the entry of a directory and does not touch
  the entries of other directories.
\<close>

theorem C5_registry_memoizes:
  "(\<not> isTestExecution w' \<longrightarrow> getPixi w' d (snd (getPixi w d s)) = getPixi w d s)
   \<and> (pixiPromise s d = None \<or> isTestExecution w \<longrightarrow>
        fst (getPixi w d s) = fst (locate w d s)
      \<and> execLog (snd (getPixi w d s)) = execLog (snd (locate w d s))
      \<and> pixiPromise (snd (getPixi w d s)) d = Some (fst (locate w d s)))
   \<and> (\<forall>r. pixiPromise s d = Some r \<longrightarrow> \<not> isTestExecution w \<longrightarrow> getPixi w d s = (r, s))
   \<and> pixiPromise (snd (getPixi w d s)) d = Some (fst (getPixi w d s))
   \<and> (\<forall>k. k \<noteq> d \<longrightarrow> pixiPromise (snd (getPixi w d s)) k = pixiPromise s k)"
proof -
  have a: "getPixi w' d (snd (getPixi w d s)) = getPixi w d s" if "\<not> isTestExecution w'"
    using getPixi_resolved[OF getPixi_memo[of w d s] that] by simp
  show ?thesis
    using a getPixi_fresh[of s d w] getPixi_resolved[of s d _ w] getPixi_memo[of w d s]
      getPixi_others[of _ d w s]
    by blast
qed

text \<open>
  Witness for C5. No candidate can be spawned: the first call finds none after running
  \<open>pixi\<close> once, the second call returns the same and runs nothing, and a third call in
  test execution runs \<open>pixi\<close> again.
\<close>

theorem C5_witness:
  "fst (getPixi (world_with exec_reject) ''/proj'' s0) = Inr None
   \<and> map call_file (execLog (snd (getPixi (world_with exec_reject) ''/proj'' s0))) = [''pixi'']
   \<and> getPixi (world_with exec_reject) ''/proj'' (snd (getPixi (world_with exec_reject) ''/proj'' s0))
       = getPixi (world_with exec_reject) ''/proj'' s0
   \<and> map call_file (execLog (snd (getPixi ((world_with exec_reject)\<lparr>isTestExecution := True\<rparr>)
         ''/proj'' (snd (getPixi (world_with exec_reject) ''/proj'' s0))))) = [''pixi'', ''pixi'']"
proof -
  let ?w = "world_with exec_reject"
  let ?t = "(world_with exec_reject)\<lparr>isTestExecution := True\<rparr>"
  let ?s1 = "snd (getPixi ?w ''/proj'' s0)"
  have nt: "\<not> isTestExecution ?w"
    by (simp add: world_defs)
  have t: "isTestExecution ?t"
    by simp
  have l: "locate ?w ''/proj'' s = probe ?w ''/proj'' [''pixi''] s" for s
    by (simp add: locate_defs world_defs)
  have l': "locate ?t ''/proj'' s = probe ?t ''/proj'' [''pixi''] s" for s
    by (simp add: locate_defs world_defs)
  have p: "\<forall>x\<in>set [''pixi'']. probe_outcome ?w x ''/proj'' = Inr JUndefined"
    by (simp add: probe_outcome_def world_defs)
  have p': "\<forall>x\<in>set [''pixi'']. probe_outcome ?t x ''/proj'' = Inr JUndefined"
    by (simp add: probe_outcome_def world_defs)
  have e: "pixiPromise s0 ''/proj'' = None" "execLog s0 = []"
    by (simp_all add: s0_def)
  note c = C5_registry_memoizes[of ?w "''/proj''" ?w s0]
  note c' = C5_registry_memoizes[of _ "''/proj''" ?t ?s1]
  have 1: "fst (getPixi ?w ''/proj'' s0) = Inr None
      \<and> execLog ?s1 = [mk_call ''pixi'' ''/proj'']"
    using c e probe_none[OF p, of s0] by (simp add: l)
  have 2: "getPixi ?w ''/proj'' ?s1 = getPixi ?w ''/proj'' s0"
    using c nt by simp
  have 3: "execLog (snd (getPixi ?t ''/proj'' ?s1)) =
      [mk_call ''pixi'' ''/proj'', mk_call ''pixi'' ''/proj'']"
    using c' t probe_none[OF p', of ?s1] 1 by (simp add: l')
  from 1 2 3 show ?thesis by (simp add: mk_call_def)
qed

section \<open>The argument of getPixiInfo\<close>






section \<open>Enumerating the environments\<close>

lemma three_envs_getPixi:
  "fst (getPixi (mk_world (exec_stdout three_envs_literal) (setting_is ''pixi'') ex rs) ''/proj'' s0)
     = Inr (Some 0)"
  "fst (getEnvList (mk_world (exec_stdout three_envs_literal) (setting_is ''pixi'') ex rs) 0
        (snd (getPixi (mk_world (exec_stdout three_envs_literal) (setting_is ''pixi'') ex rs) ''/proj'' s0)))
     = Inr (JArr three_envs)"
  "errorLog (snd (getEnvList (mk_world (exec_stdout three_envs_literal) (setting_is ''pixi'') ex rs) 0
        (snd (getPixi (mk_world (exec_stdout three_envs_literal) (setting_is ''pixi'') ex rs) ''/proj'' s0))))
     = []"
  by (simp_all add: locate_defs accessor_defs mk_world_def exec_stdout_def setting_is_def
      s0_def new_Pixi_def JSON_parse_three_envs env_prefixes_def three_envs_def)

text \<open>
  Claim C4. When the handle of a root directory reports the prefixes \<open>ps\<close>, one
  enumeration yields, in the order of \<open>ps\<close>, one record for each prefix that exists on
  disk and has an interpreter, and nothing else: the environment directories of the
  records are \<open>ps\<close> filtered, and each record carries the interpreter resolved for its
  directory.
\<close>

theorem C4_enumeration_keeps_order:
  "fst (getPixi w root s) = Inr (Some h) \<Longrightarrow>
   fst (getEnvList w h (snd (getPixi w root s))) = Inr (JArr ps) \<Longrightarrow>
     fst (doIterEnvs w root s) = (concat (map (resolved w) (filter (pathExists w) ps)), None)
   \<and> map envPath (fst (fst (doIterEnvs w root s))) =
       filter (\<lambda>p. pathExists w p \<and> (\<exists>f. getCondaInterpreterPath w p = Inr (Some f))) ps
   \<and> (\<forall>r\<in>set (fst (fst (doIterEnvs w root s))).
         kind r = Pixi \<and> getCondaInterpreterPath w (envPath r) = Inr (Some (executablePath r)))"
proof -
  assume a: "fst (getPixi w root s) = Inr (Some h)"
    "fst (getEnvList w h (snd (getPixi w root s))) = Inr (JArr ps)"
  have d: "fst (doIterEnvs w root s) = (concat (map (resolved w) (filter (pathExists w) ps)), None)"
    using doIterEnvs_dirs(1)[OF getVirtualEnvDirs_list[OF a]] by (simp add: chain_generator)
  show ?thesis
    using resolved_records[of _ w "filter (pathExists w) ps"]
    by (auto simp add: d envPath_resolved conj_commute)
qed

text \<open>Witness for C4: the tool lists three prefixes and the second no longer exists;
  the two others are yielded, in their order.\<close>

theorem C4_witness:
  "fst (doIterEnvs (mk_world (exec_stdout three_envs_literal) (setting_is ''pixi'')
          (all_but ''/proj/.pixi/envs/py310'') bin_python) ''/proj'' s0) =
     ([\<lparr>executablePath = ''/proj/.pixi/envs/default/bin/python'', kind = Pixi,
        envPath = JStr ''/proj/.pixi/envs/default''\<rparr>,
       \<lparr>executablePath = ''/proj/.pixi/envs/py311/bin/python'', kind = Pixi,
        envPath = JStr ''/proj/.pixi/envs/py311''\<rparr>], None)"
  using C4_enumeration_keeps_order[OF three_envs_getPixi(1,2),
      of "all_but ''/proj/.pixi/envs/py310''" bin_python]
  by (simp add: three_envs_def resolved_def mk_world_def all_but_def bin_python_def)

text \<open>
  Claim C8. When the resolution of the interpreter fails for one surviving prefix \<open>p\<close>,
  the generator of \<open>p\<close> ends with that error; the enumeration still ends normally, it
  yields what the prefixes before and after \<open>p\<close> yield, and the error is logged once,
  between the errors of the prefixes before and after.
\<close>

theorem C8_resolution_failure_is_isolated:
  "fst (getVirtualEnvDirs w root s) = Inr (xs @ p # ys) \<Longrightarrow>
   getCondaInterpreterPath w p = Inl e \<Longrightarrow>
     generator w p = Inl e
   \<and> fst (doIterEnvs w root s) =
       (fst (chain (map (generator w) xs)) @ fst (chain (map (generator w) ys)), None)
   \<and> errorLog (snd (doIterEnvs w root s)) =
       errorLog (snd (getVirtualEnvDirs w root s))
       @ snd (chain (map (generator w) xs)) @ [e] @ snd (chain (map (generator w) ys))"
proof -
  assume a: "fst (getVirtualEnvDirs w root s) = Inr (xs @ p # ys)"
    and b: "getCondaInterpreterPath w p = Inl e"
  have g: "generator w p = Inl e" using b by (simp add: generator_def)
  have r: "resolved w p = []" "resolve_errors w p = [e]"
    using b by (simp_all add: resolved_def resolve_errors_def)
  have c: "chain (map (generator w) (xs @ p # ys)) =
      (concat (map (resolved w) xs) @ concat (map (resolved w) ys),
       concat (map (resolve_errors w) xs) @ [e] @ concat (map (resolve_errors w) ys))"
    unfolding chain_generator by (simp add: r)
  show ?thesis
    using doIterEnvs_dirs[OF a, unfolded c] g by (simp add: chain_generator)
qed

text \<open>Witness for C8: three prefixes exist and the resolution fails for the second; the
  first and the third are yielded and the failure is in the error log.\<close>

theorem C8_witness:
  "fst (doIterEnvs (mk_world (exec_stdout three_envs_literal) (setting_is ''pixi'')
          everything (bin_python_except ''/proj/.pixi/envs/py310'')) ''/proj'' s0) =
     ([\<lparr>executablePath = ''/proj/.pixi/envs/default/bin/python'', kind = Pixi,
        envPath = JStr ''/proj/.pixi/envs/default''\<rparr>,
       \<lparr>executablePath = ''/proj/.pixi/envs/py311/bin/python'', kind = Pixi,
        envPath = JStr ''/proj/.pixi/envs/py311''\<rparr>], None)
   \<and> errorLog (snd (doIterEnvs (mk_world (exec_stdout three_envs_literal) (setting_is ''pixi'')
          everything (bin_python_except ''/proj/.pixi/envs/py310'')) ''/proj'' s0)) =
     [Failure ''EACCES'']"
proof -
  let ?w = "mk_world (exec_stdout three_envs_literal) (setting_is ''pixi'')
          everything (bin_python_except ''/proj/.pixi/envs/py310'')"
  have dirs: "fst (getVirtualEnvDirs ?w ''/proj'' s0) =
      Inr ([JStr ''/proj/.pixi/envs/default''] @ JStr ''/proj/.pixi/envs/py310''
           # [JStr ''/proj/.pixi/envs/py311''])"
    using getVirtualEnvDirs_list[OF three_envs_getPixi(1,2), of everything
        "bin_python_except ''/proj/.pixi/envs/py310''"]
    by (simp add: three_envs_def mk_world_def everything_def)
  have fail: "getCondaInterpreterPath ?w (JStr ''/proj/.pixi/envs/py310'') = Inl (Failure ''EACCES'')"
    by (simp add: mk_world_def bin_python_except_def)
  have log: "errorLog (snd (getVirtualEnvDirs ?w ''/proj'' s0)) = []"
    using three_envs_getPixi[of everything "bin_python_except ''/proj/.pixi/envs/py310''"]
    by (simp add: getVirtualEnvDirs_def split_def Let_def three_envs_def)
  from C8_resolution_failure_is_isolated[OF dirs fail] log
  show ?thesis
    by (simp add: generator_def mk_world_def bin_python_except_def bin_python_def)
qed


end
